theory Spec2Isabelle
  imports Main "HOL-Library.Char_ord" "HOL-Library.List_Lexorder"
begin

section \<open>wpp: a web pre-processor that assembles a single HTML file\<close>

text \<open>
  The development follows the Go program: \<^verbatim>\<open>preprocess\<close> (parse the template, walk the
  input directory, splice the CSS and Javascript buffers into the template), \<^verbatim>\<open>loadHtml\<close>,
  and the dev-mode event loop of \<^verbatim>\<open>main\<close> with the build goroutine it starts.

  Strings are byte strings (\<^typ>\<open>string\<close>), as Go's are. Everything the program gets from
  outside (the template file, the directory tree, the outcome of each system call) is an
  explicit argument of the function that reads it.
\<close>

subsection \<open>Strings and paths\<close>

text \<open>
  \<^verbatim>\<open>strings.ToLower\<close>, on bytes: the letters A-Z are mapped to a-z. The program only
  compares the result with \<^verbatim>\<open>".js"\<close> and \<^verbatim>\<open>".css"\<close>, and no code point outside ASCII
  is lowered to one of the letters j, s or c, so the bytewise mapping decides the same
  comparisons as the Unicode one.
\<close>

definition lower_byte :: "char \<Rightarrow> char" where
  "lower_byte ch =
     (let n = (of_char ch :: nat) in if 65 \<le> n \<and> n \<le> 90 then char_of (n + 32) else ch)"

definition ToLower :: "string \<Rightarrow> string" where
  "ToLower s = map lower_byte s"

definition IsPathSeparator :: "char \<Rightarrow> bool" where
  "IsPathSeparator ch = (ch = CHR ''/'')"

text \<open>
  Paths are those of a Unix system: the separator is the slash.

  \<^verbatim>\<open>filepath.Ext\<close>: scan from the last byte towards the first, stop at a path separator,
  return the suffix that starts at the first dot met. The first argument is the part of
  the path still to scan, reversed; the second is the suffix already scanned.
\<close>

fun ext_scan :: "string \<Rightarrow> string \<Rightarrow> string" where
  "ext_scan [] suf = []"
| "ext_scan (ch # pre) suf =
     (if IsPathSeparator ch then []
      else if ch = CHR ''.'' then ch # suf
      else ext_scan pre (ch # suf))"

definition Ext :: "string \<Rightarrow> string" where
  "Ext path = ext_scan (rev path) []"

subsection \<open>Options, log and program state\<close>

text \<open>
  \<^verbatim>\<open>text/template\<close> is a library outside the repository. The program calls it twice:
  \<^verbatim>\<open>Parse\<close> on a template text and \<^verbatim>\<open>Execute\<close> of the parsed template on a value. It is a
  parameter of the model: \<open>parse_error\<close> gives the error of \<^verbatim>\<open>Parse\<close> (\<open>None\<close> when the text
  parses), \<open>execute\<close> gives, for a text that parsed, the bytes \<^verbatim>\<open>Execute\<close> emits on a
  writer that accepts them all and the error that stopped it, if any.
\<close>

datatype tdata =
    Result (CSS: string) (Javascript: string)   \<comment> \<open>the struct \<^verbatim>\<open>result\<close> of \<^verbatim>\<open>preprocess\<close>\<close>
  | Port nat                                     \<comment> \<open>\<^verbatim>\<open>reloadPort\<close>\<close>

record engine =
  parse_error :: "string \<Rightarrow> string option"
  execute :: "string \<Rightarrow> tdata \<Rightarrow> string \<times> string option"

text \<open>
  The command line options and what \<^verbatim>\<open>main\<close> computes from them before the loop:
  \<open>ignore\<close> is the compiled \<^verbatim>\<open>-ignore\<close> regular expression as a predicate on file names,
  \<open>None\<close> when the option is empty or does not compile (\<^verbatim>\<open>regexp.Compile\<close> then returns
  \<^verbatim>\<open>nil\<close>). \<open>UintSize\<close> is the width of the platform's \<^verbatim>\<open>uint\<close>, \<open>OpenBrowserCommand\<close>
  the platform's constant of that name (the command that opens a file in the browser).
\<close>

record config =
  inputdir :: string
  OptOutfile :: string
  OptVerbose :: bool
  OptDevport :: nat
  OptTemplate :: string
  ignore :: "(string \<Rightarrow> bool) option"
  UintSize :: nat
  OpenBrowserCommand :: string
  template :: engine

datatype logline = ERROR "string list" | VERBOSE "string list"

datatype wsconn = NoConn | ConnOpen | ConnClosed

text \<open>
  The variables of \<^verbatim>\<open>main\<close> in dev mode (\<open>isReady\<close>, \<open>pending\<close>, \<open>interrupted\<close>, \<open>served\<close>,
  \<open>html\<close>), the global \<open>ProgWebSocket\<close>, and what the program acts on: the bytes of the
  output file, the bytes written to standard output, the log. Three counters record the
  history of the build goroutines: \<open>dispatched\<close> counts the \<^verbatim>\<open>go\<close> statements executed,
  \<open>finished\<close> the goroutines that have reached their send on \<^verbatim>\<open>ready\<close>, \<open>received\<close> the
  receptions on \<^verbatim>\<open>ready\<close> by the loop. The program does not read them. \<open>exited\<close> says that
  the program has ended: \<^verbatim>\<open>main\<close> has returned, or a goroutine has panicked, which ends the
  whole program; \<open>panic\<close> then holds the value of the panic.
\<close>

record state =
  isReady :: bool
  pending :: bool
  interrupted :: bool
  served :: bool
  html :: string
  ProgWebSocket :: wsconn
  outfile :: string
  stdout :: string
  log :: "logline list"
  reloads :: nat
  dispatched :: nat
  finished :: nat
  received :: nat
  exited :: bool
  panic :: "string option"

definition elog :: "string list \<Rightarrow> state \<Rightarrow> state" where
  "elog args st = st\<lparr>log := log st @ [ERROR args]\<rparr>"

definition vlog :: "config \<Rightarrow> string list \<Rightarrow> state \<Rightarrow> state" where
  "vlog c args st = (if OptVerbose c then st\<lparr>log := log st @ [VERBOSE args]\<rparr> else st)"

subsection \<open>Change events of the input directory\<close>

text \<open>
  What the loop reads of a \<^verbatim>\<open>filewatch.Update\<close>: \<^verbatim>\<open>u.Prev.Name()\<close>, \<^verbatim>\<open>u.Prev.IsDir()\<close> and
  \<^verbatim>\<open>u.WasRemoved\<close>.
\<close>

record Update =
  Name :: string
  IsDir :: bool
  WasRemoved :: bool

definition ignored :: "config \<Rightarrow> string \<Rightarrow> bool" where
  "ignored c name = (case ignore c of None \<Rightarrow> False | Some re \<Rightarrow> re name)"

text \<open>The body of \<^verbatim>\<open>for _, u := range us\<close>, for one update.\<close>

definition on_update :: "config \<Rightarrow> Update \<Rightarrow> state \<Rightarrow> state" where
  "on_update c u st =
     (if \<not> IsDir u \<and> \<not> WasRemoved u then
        (let name = Name u in
         if ignored c name then st
         else
           (let ext = ToLower (Ext name);
                old = pending st;
                st1 = st\<lparr>pending := (pending st \<or> ext = ''.js'' \<or> ext = ''.css'')\<rparr>
            in if \<not> old \<and> pending st1
               then vlog c [''Detected change of file'', name] st1
               else st1))
      else st)"

fun on_updates :: "config \<Rightarrow> Update list \<Rightarrow> state \<Rightarrow> state" where
  "on_updates c [] st = st"
| "on_updates c (u # us) st = on_updates c us (on_update c u st)"

text \<open>The relevance of one event, as the specification words it.\<close>

definition relevant :: "config \<Rightarrow> Update \<Rightarrow> bool" where
  "relevant c u \<longleftrightarrow>
     \<not> IsDir u \<and> \<not> WasRemoved u \<and> \<not> ignored c (Name u) \<and>
     ToLower (Ext (Name u)) \<in> {''.js'', ''.css''}"

subsection \<open>Loading the template\<close>

text \<open>
  What \<^verbatim>\<open>loadHtml\<close> finds when it runs: the file is absent, \<^verbatim>\<open>os.Stat\<close> fails otherwise,
  \<^verbatim>\<open>ioutil.ReadFile\<close> fails, or the file is read.
\<close>

datatype tfile = Absent | StatFails string | ReadFails string | Text string

text \<open>
  \<^verbatim>\<open>loadHtml\<close> returns a pair, as the Go function does: on every error path the string
  is empty.
\<close>

definition loadHtml :: "string \<Rightarrow> tfile \<Rightarrow> string \<times> string option" where
  "loadHtml file tf =
     (case tf of
        Absent \<Rightarrow> ([], Some (file @ '' does not exist''))
      | StatFails e \<Rightarrow> ([], Some (''Could not read file info for '' @ file @ '' -- '' @ e))
      | ReadFails e \<Rightarrow> ([], Some (''Could not read template file, '' @ file @ '' -- '' @ e))
      | Text b \<Rightarrow> (b, None))"

subsection \<open>Constants of the program\<close>

definition nl :: string where
  "nl = [CHR 0x0A]"

definition ProgHtmlTemplate :: string where
  \<open>ProgHtmlTemplate =
     ''<!doctype html>'' @ nl @
     ''<html>'' @ nl @
     ''  <head>'' @ nl @
     ''    <meta charset="utf-8">'' @ nl @
     ''    {{.CSS}}'' @ nl @
     ''  </head>'' @ nl @
     ''  <body></body>'' @ nl @
     ''  {{.Javascript}}'' @ nl @
     ''</html>''\<close>

definition ProgHotReloadCode :: string where
  \<open>ProgHotReloadCode =
     nl @ ''(function () {'' @
     nl @ ''    window.addEventListener("load", function(evt) {'' @
     nl @ ''        var socket = new WebSocket('' @ [CHR 0x27] @ ''ws://localhost:{{.}}/wpphotreload'' @ [CHR 0x27] @ '');'' @
     nl @ ''        socket.addEventListener('' @ [CHR 0x27] @ ''message'' @ [CHR 0x27] @ '', function(wsevt) {'' @
     nl @ ''            if (wsevt.data === '' @ [CHR 0x27] @ ''reload'' @ [CHR 0x27] @ '') {'' @
     nl @ ''                console.log("File change detected, reloading page.");'' @
     nl @ ''                window.location.reload(true);'' @
     nl @ ''            }'' @
     nl @ ''        });'' @
     nl @ ''    });'' @
     nl @ ''})()''\<close>

definition css_open :: string where
  \<open>css_open = ''<style type="text/css">''\<close>

definition js_open :: string where
  \<open>js_open = ''<script type="text/javascript">''\<close>

text \<open>Decimal digits of a number, as \<^verbatim>\<open>%v\<close> and \<^verbatim>\<open>%d\<close> print an unsigned integer.\<close>

fun decimal :: "nat \<Rightarrow> string" where
  "decimal n =
     (if n < 10 then [char_of (48 + n)] else decimal (n div 10) @ [char_of (48 + n mod 10)])"

declare decimal.simps [simp del]

text \<open>
  The constants of \<^verbatim>\<open>preprocess\<close>: \<^verbatim>\<open>MinUint = uint(0)\<close>, \<^verbatim>\<open>MaxUint = ^MinUint\<close> (all
  \<open>UintSize\<close> bits set), \<^verbatim>\<open>MaxInt = int(MaxUint >> 1)\<close>.
\<close>

definition MinUint :: nat where
  "MinUint = 0"

definition MaxUint :: "config \<Rightarrow> nat" where
  "MaxUint c = 2 ^ UintSize c - 1 - MinUint"

definition MaxInt :: "config \<Rightarrow> nat" where
  "MaxInt c = MaxUint c div 2"

subsection \<open>The input directory\<close>

text \<open>
  The directory tree as \<^verbatim>\<open>filepath.Walk\<close> and the walk function meet it. A node is
  \<^item> \<open>NoStat err\<close>: \<^verbatim>\<open>lstat\<close> of the path fails with \<open>err\<close>;
  \<^item> \<open>File sz opn bytes\<close>: not a directory; \<open>sz\<close> is \<^verbatim>\<open>info.Size()\<close>, \<open>opn\<close> the outcome
    of \<^verbatim>\<open>os.Open\<close>, \<open>bytes\<close> what \<^verbatim>\<open>io.Copy\<close> reads from the opened file (the program
    ignores the error of \<^verbatim>\<open>io.Copy\<close>, so a failed read just ends the bytes);
  \<^item> \<open>DirUnreadable sz opn err\<close>: a directory whose names cannot be read;
  \<^item> \<open>Dir sz opn entries\<close>: a directory with its entries, in any order.
  Sizes are not negative. Reading from an opened directory fails at once, so a directory
  contributes no bytes.

  The outcome of \<^verbatim>\<open>os.Open\<close> is \<open>NotExist\<close> (the error for which \<^verbatim>\<open>os.IsNotExist\<close> holds),
  \<open>OpenErr err\<close> (another error) or \<open>OpenOK grows\<close>: the file is open, and \<open>grows\<close> says
  whether the memory for its bytes can be had when the walk function asks for it.
\<close>

datatype open_outcome = NotExist | OpenErr string | OpenOK bool

text \<open>
  How a call ends when it does not end well: it returns an error, or it panics. A panic
  in a goroutine is recovered nowhere in the program: it ends the program.
\<close>

datatype failure = Error string | Panic string

text \<open>The value \<^verbatim>\<open>bytes.ErrTooLarge\<close>, as the panic prints it.\<close>

definition ErrTooLarge :: string where
  "ErrTooLarge = ''bytes.Buffer: too large''"

text \<open>
  \<^verbatim>\<open>pbuf.Grow(int(sz))\<close> followed by \<^verbatim>\<open>io.Copy(pbuf, file)\<close>, on a buffer that holds \<open>buf\<close>.
  \<^verbatim>\<open>Grow\<close> panics with \<^verbatim>\<open>ErrTooLarge\<close> when the buffer cannot grow by \<open>sz\<close> bytes. A buffer
  holds at most \<open>MaxInt\<close> bytes, so that is certain when the bytes it holds and \<open>sz\<close> (or the
  bytes then copied) exceed \<open>MaxInt\<close>; below that it depends on the memory at hand, which
  is \<open>grows\<close>. When the calls return, the bytes of the file stand at the end of the buffer.
\<close>

definition Grow_Copy :: "nat \<Rightarrow> bool \<Rightarrow> nat \<Rightarrow> string \<Rightarrow> string \<Rightarrow> failure + string" where
  "Grow_Copy maxint grows sz bytes buf =
     (if \<not> grows \<or> length buf + sz > maxint \<or> length buf + length bytes > maxint
      then Inl (Panic ErrTooLarge)
      else Inr (buf @ bytes))"

datatype fsnode =
    NoStat string
  | File nat open_outcome string
  | DirUnreadable nat open_outcome string
  | Dir nat open_outcome "(string \<times> fsnode) list"

record bufs =
  css :: string
  js :: string

text \<open>
  The function literal passed to \<^verbatim>\<open>filepath.Walk\<close>. \<open>e\<close> is the error \<^verbatim>\<open>Walk\<close> passes in.
  The test of the size comes before \<^verbatim>\<open>Grow\<close>, and \<^verbatim>\<open>Grow\<close> is where the program asks for
  memory itself; the short writes into the buffers elsewhere in \<^verbatim>\<open>preprocess\<close> (the tags, the
  hot-reload snippet) are taken to succeed.
\<close>

definition walkFn ::
  "config \<Rightarrow> string \<Rightarrow> nat \<Rightarrow> string option \<Rightarrow> open_outcome \<Rightarrow> string \<Rightarrow> bufs \<Rightarrow> failure + bufs" where
  "walkFn c path sz e opn bytes b =
     (case e of
        Some err \<Rightarrow> Inl (Error err)
      | None \<Rightarrow>
          (let ext = ToLower (Ext path) in
           if ext = ''.js'' \<or> ext = ''.css'' then
             (case opn of
                NotExist \<Rightarrow> Inr b
              | OpenErr err \<Rightarrow> Inl (Error err)
              | OpenOK grows \<Rightarrow>
                  if sz \<ge> MaxInt c
                  then Inl (Error (''Files larger than '' @ decimal (MaxInt c) @ '' are not supported.''))
                  else if ext = ''.js'' then
                    (case Grow_Copy (MaxInt c) grows sz bytes (js b) of
                       Inl f \<Rightarrow> Inl f
                     | Inr buf \<Rightarrow> Inr (b\<lparr>js := buf\<rparr>))
                  else
                    (case Grow_Copy (MaxInt c) grows sz bytes (css b) of
                       Inl f \<Rightarrow> Inl f
                     | Inr buf \<Rightarrow> Inr (b\<lparr>css := buf\<rparr>)))
           else Inr b))"

text \<open>\<^verbatim>\<open>filepath.Join\<close> of a clean directory path and a name read from that directory.\<close>

definition Join :: "string \<Rightarrow> string \<Rightarrow> string" where
  "Join dir name = dir @ ''/'' @ name"

text \<open>Run visits in order; the first one that fails ends the run and is its result.\<close>

fun visit_all :: "('b \<Rightarrow> 'e + 'b) list \<Rightarrow> 'b \<Rightarrow> 'e + 'b" where
  "visit_all [] b = Inr b"
| "visit_all (v # vs) b = (case v b of Inl err \<Rightarrow> Inl err | Inr b' \<Rightarrow> visit_all vs b')"

text \<open>
  Modelled from the spec: the one-pass directory walk, Go's \<^verbatim>\<open>filepath.Walk\<close>, is a
  collaborator outside the repository. As the library documents and implements it:
  the walk function is called on the root and on every node below it; the names of a
  directory are read and sorted (\<^verbatim>\<open>sort.Strings\<close>, bytewise) and visited in that order, each
  subtree wholly before the next name; the first error the walk function returns ends
  the walk and is its result; a panic of the walk function ends the walk as well. In the
  last equation every entry is paired with the visit of its subtree, the pairs are sorted
  by name, and the visits run in that order.
\<close>

fun walk :: "config \<Rightarrow> string \<Rightarrow> fsnode \<Rightarrow> bufs \<Rightarrow> failure + bufs" where
  "walk c path (NoStat err) b = walkFn c path 0 (Some err) NotExist [] b"
| "walk c path (File sz opn bytes) b = walkFn c path sz None opn bytes b"
| "walk c path (DirUnreadable sz opn err) b = walkFn c path sz (Some err) opn [] b"
| "walk c path (Dir sz opn entries) b =
     (case walkFn c path sz None opn [] b of
        Inl err \<Rightarrow> Inl err
      | Inr b1 \<Rightarrow>
          visit_all
            (map snd (sort_key fst
              (map (\<lambda>entry. (fst entry, \<lambda>b'. walk c (Join path (fst entry)) (snd entry) b'))
                 entries)))
            b1)"

subsection \<open>The template collaborator\<close>

datatype node = TextNode string | FieldNode string | DotNode

text \<open>
  White space between the delimiters of an action: the space and the tab. White space that
  a trim marker removes from the text around an action: space, tab, carriage return and
  newline.
\<close>

definition is_space :: "char \<Rightarrow> bool" where
  "is_space ch = (ch = CHR '' '' \<or> ch = CHR 0x09)"

definition is_blank :: "char \<Rightarrow> bool" where
  "is_blank ch = (ch = CHR '' '' \<or> ch = CHR 0x09 \<or> ch = CHR 0x0D \<or> ch = CHR 0x0A)"

definition trim :: "string \<Rightarrow> string" where
  "trim s = rev (dropWhile is_space (rev (dropWhile is_space s)))"

definition TrimLeft :: "string \<Rightarrow> string" where
  "TrimLeft s = dropWhile is_blank s"

definition TrimRight :: "string \<Rightarrow> string" where
  "TrimRight s = rev (dropWhile is_blank (rev s))"

definition is_letter :: "char \<Rightarrow> bool" where
  "is_letter ch =
     (let n = (of_char ch :: nat) in (65 \<le> n \<and> n \<le> 90) \<or> (97 \<le> n \<and> n \<le> 122) \<or> n = 95)"

definition is_digit :: "char \<Rightarrow> bool" where
  "is_digit ch = (let n = (of_char ch :: nat) in 48 \<le> n \<and> n \<le> 57)"

definition is_ident :: "string \<Rightarrow> bool" where
  "is_ident s =
     (case s of [] \<Rightarrow> False | ch # cs \<Rightarrow> is_letter ch \<and> list_all (\<lambda>x. is_letter x \<or> is_digit x) cs)"

text \<open>The action between the delimiters: the dot, or one field of the dot.\<close>

definition action :: "string \<Rightarrow> node option" where
  "action body =
     (case trim body of
        [] \<Rightarrow> None
      | ch # name \<Rightarrow>
          if ch \<noteq> CHR ''.'' then None
          else if name = [] then Some DotNode
          else if is_ident name then Some (FieldNode name)
          else None)"

text \<open>
  The text between the delimiters, with its trim markers: a minus sign and a space right
  after the opening delimiter, a space and a minus sign right before the closing one. The
  result is the action with the two markers found, \<open>None\<close> when the text is outside the
  fragment; a closing marker after more white space than its own space is left outside.
\<close>

definition marked :: "string \<Rightarrow> (bool \<times> node \<times> bool) option" where
  "marked body =
     (let lt = (take 2 body = ''- '');
          b1 = (if lt then drop 2 body else body);
          rt = (take 2 (rev b1) = ''- '');
          b2 = (if rt then rev (drop 2 (rev b1)) else b1)
      in if rt \<and> b2 \<noteq> [] \<and> is_space (last b2) then None
         else map_option (\<lambda>n. (lt, n, rt)) (action b2))"

text \<open>
  Cut a text at the first place where the byte \<open>d\<close> stands twice in a row: the text before
  and the text after, \<open>None\<close> when there is no such place. The last argument is the text
  passed so far, reversed.
\<close>

fun cut :: "char \<Rightarrow> string \<Rightarrow> string \<Rightarrow> (string \<times> string) option" where
  "cut d [] acc = None"
| "cut d [ch] acc = None"
| "cut d (ch # ch2 # s) acc =
     (if ch = d \<and> ch2 = d then Some (rev acc, s) else cut d (ch2 # s) (ch # acc))"

definition text_node :: "string \<Rightarrow> node list" where
  "text_node s = (if s = [] then [] else [TextNode s])"

text \<open>
  The nodes of a template text. A left trim marker removes the white space at the end of
  the text before its action, a right trim marker the white space at the start of the text
  after it.
\<close>

function parse_nodes :: "string \<Rightarrow> string + node list" where
  "parse_nodes s =
     (case cut CHR ''{'' s [] of
        None \<Rightarrow> Inr (text_node s)
      | Some (pre, rest) \<Rightarrow>
          (case cut CHR ''}'' rest [] of
             None \<Rightarrow> Inl ''unclosed action''
           | Some (body, rest') \<Rightarrow>
               (case marked body of
                  None \<Rightarrow> Inl ''action outside the modelled fragment''
                | Some m \<Rightarrow>
                    (case parse_nodes (if snd (snd m) then TrimLeft rest' else rest') of
                       Inl err \<Rightarrow> Inl err
                     | Inr ns \<Rightarrow>
                         Inr (text_node (if fst m then TrimRight pre else pre) @ fst (snd m) # ns)))))"
  by pat_completeness auto
termination
proof (relation "measure length")
  show "wf (measure length)" by simp
next
  have shorter: "cut d s acc = Some (a, r) \<Longrightarrow> length r < length s" for d s acc a r
    by (induction d s acc rule: cut.induct) (auto split: if_splits)
  fix s x2 pre rest x2a body rest' m
  assume "cut CHR ''{'' s [] = Some x2" and "(pre, rest) = x2"
    and "cut CHR ''}'' rest [] = Some x2a" and "(body, rest') = x2a"
  then have "length rest < length s" and "length rest' < length rest"
    using shorter by metis+
  moreover have "length (TrimLeft rest') \<le> length rest'"
    by (simp add: TrimLeft_def length_dropWhile_le)
  ultimately show "(if snd (snd m) then TrimLeft rest' else rest', s) \<in> measure length" by simp
qed

declare parse_nodes.simps [simp del]

definition eval_node :: "node \<Rightarrow> tdata \<Rightarrow> string + string" where
  "eval_node n d =
     (case n of
        TextNode s \<Rightarrow> Inr s
      | DotNode \<Rightarrow>
          (case d of
             Result a b \<Rightarrow> Inr (''{'' @ a @ '' '' @ b @ ''}'')
           | Port p \<Rightarrow> Inr (decimal p))
      | FieldNode f \<Rightarrow>
          (case d of
             Result a b \<Rightarrow>
               if f = ''CSS'' then Inr a
               else if f = ''Javascript'' then Inr b
               else Inl (''can not evaluate field '' @ f)
           | Port p \<Rightarrow> Inl (''can not evaluate field '' @ f)))"

fun exec_nodes :: "node list \<Rightarrow> tdata \<Rightarrow> string \<times> string option" where
  "exec_nodes [] d = ([], None)"
| "exec_nodes (n # ns) d =
     (case eval_node n d of
        Inl err \<Rightarrow> ([], Some err)
      | Inr s \<Rightarrow> (let r = exec_nodes ns d in (s @ fst r, snd r)))"

text \<open>
  Modelled from the spec: the template collaborator (\<^verbatim>\<open>Render(templateText, {css, js})\<close>,
  in the program Go's \<^verbatim>\<open>text/template\<close>) is outside the repository. This instance covers
  the templates the program's usage text describes: literal text, the two slots
  \<^verbatim>\<open>{{.CSS}}\<close> and \<^verbatim>\<open>{{.Javascript}}\<close>, and the dot \<^verbatim>\<open>{{.}}\<close> of the hot-reload snippet, each
  with or without spaces and tabs inside the delimiters (\<^verbatim>\<open>{{ .CSS }}\<close>) and with or without
  trim markers (\<^verbatim>\<open>{{- .CSS -}}\<close>). The dot stands for the value the template is executed on:
  on the result of \<^verbatim>\<open>preprocess\<close> it prints the two fields between braces, on the port it
  prints the number. A field the value does not have parses and fails when executed,
  after the text before it has been emitted; an action that is not closed does not parse.
  Every other action (pipelines, control structures, comments, white space other than
  spaces and tabs inside an action) is outside the fragment: the instance reports it as an
  error of its own and nothing below rests on that case.
\<close>

definition text_template :: engine where
  "text_template =
     \<lparr> parse_error = (\<lambda>s. case parse_nodes s of Inl err \<Rightarrow> Some err | Inr ns \<Rightarrow> None),
       execute = (\<lambda>s d. case parse_nodes s of Inl err \<Rightarrow> ([], Some err) | Inr ns \<Rightarrow> exec_nodes ns d) \<rparr>"

subsection \<open>preprocess\<close>

text \<open>
  The hot-reload snippet: \<^verbatim>\<open>ProgHotReloadCode\<close> is parsed and executed on the port into the
  Javascript buffer, which accepts every byte.
\<close>

definition hot_reload :: "config \<Rightarrow> nat \<Rightarrow> bufs \<Rightarrow> string + bufs" where
  "hot_reload c reloadPort b =
     (case parse_error (template c) ProgHotReloadCode of
        Some err \<Rightarrow> Inl err
      | None \<Rightarrow>
          (let r = execute (template c) ProgHotReloadCode (Port reloadPort) in
           case snd r of
             Some err \<Rightarrow> Inl err
           | None \<Rightarrow> Inr (b\<lparr>js := js b @ fst r\<rparr>)))"

text \<open>
  Executing a template on the writer \<^verbatim>\<open>out\<close>. \<open>fault = Some (k, err)\<close> says that \<^verbatim>\<open>out\<close>
  accepts \<open>k\<close> more bytes and fails the write that goes beyond them with \<open>err\<close>;
  \<open>None\<close> says that every write succeeds. The execution stops at the first failed write.
\<close>

definition write_out :: "(nat \<times> string) option \<Rightarrow> string \<times> string option \<Rightarrow> string \<times> string option" where
  "write_out fault r =
     (case fault of
        None \<Rightarrow> r
      | Some (k, err) \<Rightarrow> if k < length (fst r) then (take k (fst r), Some err) else r)"

text \<open>
  \<^verbatim>\<open>preprocess(indir, html, out, reloadPort)\<close>: the result is the bytes written to \<^verbatim>\<open>out\<close>
  and how the call ended: \<open>None\<close> when it returned \<^verbatim>\<open>nil\<close>, the error it returned, or the
  panic that ended it. \<open>t\<close> is the tree found at \<open>indir\<close>, \<open>h\<close> the template text (the
  parameter \<^verbatim>\<open>html\<close>).
\<close>

definition preprocess ::
  "config \<Rightarrow> fsnode \<Rightarrow> string \<Rightarrow> string \<Rightarrow> (nat \<times> string) option \<Rightarrow> nat \<Rightarrow> string \<times> failure option" where
  "preprocess c t indir h fault reloadPort =
     (case parse_error (template c) h of
        Some err \<Rightarrow> ([], Some (Error err))
      | None \<Rightarrow>
          (case walk c indir t \<lparr>css = css_open, js = js_open\<rparr> of
             Inl f \<Rightarrow> ([], Some f)
           | Inr b \<Rightarrow>
               (case (if reloadPort > 0 then hot_reload c reloadPort b else Inr b) of
                  Inl err \<Rightarrow> ([], Some (Error err))
                | Inr b1 \<Rightarrow>
                    (let b2 = b1\<lparr>css := css b1 @ ''</style>''\<rparr>;
                         b3 = b2\<lparr>js := js b2 @ ''</script>''\<rparr>;
                         r = write_out fault (execute (template c) h (Result (css b3) (js b3)))
                     in (fst r, map_option Error (snd r))))))"

subsection \<open>The build goroutine\<close>

text \<open>
  What one run of the goroutine meets: the tree under the input directory and the
  outcome of each call that can fail (\<open>None\<close>: the call succeeds).
\<close>

record env =
  tree :: fsnode
  truncate_err :: "string option"
  seek_err :: "string option"
  write_fault :: "(nat \<times> string) option"
  sync_err :: "string option"
  browser_err :: "string option"
  ws_err :: "string option"

text \<open>
  \<^verbatim>\<open>file.Truncate(0)\<close> and \<^verbatim>\<open>file.Seek(0, 0)\<close>, when an output file is set: the error left in
  \<^verbatim>\<open>err\<close> and the state.
\<close>

definition rewind :: "config \<Rightarrow> env \<Rightarrow> state \<Rightarrow> string option \<times> state" where
  "rewind c ev st =
     (if OptOutfile c \<noteq> [] then
        (case truncate_err ev of
           Some e \<Rightarrow> (Some e, elog [''Failed to truncate outfile,'', OptOutfile c, ''-- '', e] st)
         | None \<Rightarrow>
             (case seek_err ev of
                Some e \<Rightarrow>
                  (Some e,
                   elog [''Failed to seek to beginning of outfile,'', OptOutfile c, ''-- '', e]
                     (st\<lparr>outfile := []\<rparr>))
              | None \<Rightarrow> (None, st\<lparr>outfile := []\<rparr>)))
      else (None, st))"

text \<open>Bytes written to \<^verbatim>\<open>out\<close>: the output file when one is set, standard output otherwise.\<close>

definition emit :: "config \<Rightarrow> string \<Rightarrow> state \<Rightarrow> state" where
  "emit c bytes st =
     (if OptOutfile c \<noteq> [] then st\<lparr>outfile := outfile st @ bytes\<rparr>
      else st\<lparr>stdout := stdout st @ bytes\<rparr>)"

text \<open>
  After a \<^verbatim>\<open>preprocess\<close> without error and with a port: the first time the server is
  started and the browser opened, later the reload message is written to the web socket.
  The server goroutine itself is not modelled.
\<close>

definition notify :: "config \<Rightarrow> env \<Rightarrow> state \<Rightarrow> state" where
  \<open>notify c ev st =
     (if \<not> served st then
        (let st1 = st\<lparr>served := True\<rparr> in
         case browser_err ev of
           Some e \<Rightarrow> elog [''Failed to open'', OptOutfile c, ''in browser --'', e] st1
         | None \<Rightarrow>
             vlog c [''Opening in browser with "'' @ OpenBrowserCommand c @ '' '' @ OptOutfile c @ ''"'']
               st1)
      else if ProgWebSocket st \<noteq> NoConn then
        (case ws_err ev of
           Some e \<Rightarrow> elog [''Failed to write "reload" web socket message'', e] st
         | None \<Rightarrow> st\<lparr>reloads := reloads st + 1\<rparr>)
      else elog [''ProgWebSocket is nil, can'' @ [CHR 0x27] @ ''t write messages''] st)\<close>

text \<open>
  The body of the goroutine up to the send on \<^verbatim>\<open>ready\<close>, as one step. It reads \<open>html\<close> and
  \<open>served\<close> when it runs. When \<^verbatim>\<open>preprocess\<close> panics the goroutine goes no further: nothing
  is logged and the send on \<^verbatim>\<open>ready\<close> is not reached.
\<close>

definition build_body :: "config \<Rightarrow> env \<Rightarrow> state \<Rightarrow> state" where
  "build_body c ev st =
     (let port = (if OptOutfile c \<noteq> [] then OptDevport c else 0);
          r = rewind c ev st
      in case fst r of
           Some e \<Rightarrow> snd r
         | None \<Rightarrow>
             (let p = preprocess c (tree ev) (inputdir c) (html (snd r)) (write_fault ev) port;
                  st1 = emit c (fst p) (snd r)
              in case snd p of
                   Some (Panic v) \<Rightarrow> st1\<lparr>panic := Some v\<rparr>
                 | Some (Error e) \<Rightarrow> elog [''Failed to pre-process'', inputdir c, '' --'', e] st1
                 | None \<Rightarrow>
                     if port > 0 then notify c ev st1
                     else st1\<lparr>stdout := stdout st1 @ nl\<rparr>))"

text \<open>
  The port a build passes to \<^verbatim>\<open>preprocess\<close>, what that call returns in a given state, and
  when a run of the goroutine ends in a panic.
\<close>

definition port_of :: "config \<Rightarrow> nat" where
  "port_of c = (if OptOutfile c \<noteq> [] then OptDevport c else 0)"

definition rendered :: "config \<Rightarrow> env \<Rightarrow> state \<Rightarrow> string \<times> failure option" where
  "rendered c ev st =
     preprocess c (tree ev) (inputdir c) (html st) (write_fault ev) (port_of c)"

definition build_panics :: "config \<Rightarrow> env \<Rightarrow> state \<Rightarrow> bool" where
  "build_panics c ev st \<longleftrightarrow>
     fst (rewind c ev st) = None \<and>
     (case snd (rendered c ev st) of Some (Panic v) \<Rightarrow> True | _ \<Rightarrow> False)"

text \<open>
  The deferred \<^verbatim>\<open>file.Sync()\<close> is registered when \<^verbatim>\<open>Truncate\<close> and \<^verbatim>\<open>Seek\<close> succeeded. It
  runs when the goroutine returns, after its send on \<^verbatim>\<open>ready\<close>, and also when the goroutine
  panics; the model records its log line with the goroutine's step.

  A run of the goroutine: it reaches its send on \<^verbatim>\<open>ready\<close>, or it panics and the program
  ends.
\<close>

definition deferred_sync :: "config \<Rightarrow> env \<Rightarrow> state \<Rightarrow> state" where
  "deferred_sync c ev st =
     (if OptOutfile c \<noteq> [] \<and> truncate_err ev = None \<and> seek_err ev = None then
        (case sync_err ev of
           Some e \<Rightarrow> elog [''Failed to sync outfile,'', OptOutfile c, ''-- '', e] st
         | None \<Rightarrow> st)
      else st)"

definition build :: "config \<Rightarrow> env \<Rightarrow> state \<Rightarrow> state" where
  "build c ev st =
     (if build_panics c ev st
      then (deferred_sync c ev (build_body c ev st))\<lparr>exited := True\<rparr>
      else deferred_sync c ev ((build_body c ev st)\<lparr>finished := finished st + 1\<rparr>))"

subsection \<open>The event loop\<close>

text \<open>
  The steps of the running program. The first four are the cases of the loop's
  \<^verbatim>\<open>select\<close>: a batch on \<^verbatim>\<open>updates\<close>, a batch on \<^verbatim>\<open>tmplUpdate\<close> (with what \<^verbatim>\<open>loadHtml\<close> then
  finds), a reception on \<^verbatim>\<open>ready\<close>, the interrupt. \<open>Build\<close> is a run of a dispatched
  goroutine; \<open>Upgrade\<close> and \<open>PeerClosed\<close> are the handler \<^verbatim>\<open>reload\<close>: the upgrade of a request
  (with its error, if any) and the return of the handler when the peer closes.
\<close>

datatype event =
    Updates "Update list"
  | TmplUpdate tfile
  | Ready
  | Interrupt
  | Build env
  | Upgrade "string option"
  | PeerClosed string

definition is_stimulus :: "event \<Rightarrow> bool" where
  "is_stimulus e = (case e of Updates us \<Rightarrow> True | TmplUpdate tf \<Rightarrow> True | Ready \<Rightarrow> True | _ \<Rightarrow> False)"

text \<open>The \<^verbatim>\<open>select\<close> statement.\<close>

definition on_tmplUpdate :: "config \<Rightarrow> tfile \<Rightarrow> state \<Rightarrow> state" where
  "on_tmplUpdate c tf st =
     (let st1 = st\<lparr>pending := True\<rparr> in
      if OptTemplate c \<noteq> [] then
        (let st2 = vlog c [''Detected change of HTML template:'', OptTemplate c] st1;
             r = loadHtml (OptTemplate c) tf;
             st3 = st2\<lparr>html := fst r\<rparr>
         in case snd r of Some err \<Rightarrow> elog [err] st3 | None \<Rightarrow> st3)
      else st1)"

definition select :: "config \<Rightarrow> event \<Rightarrow> state \<Rightarrow> state" where
  "select c e st =
     (case e of
        Updates us \<Rightarrow> on_updates c us st
      | TmplUpdate tf \<Rightarrow> on_tmplUpdate c tf st
      | Ready \<Rightarrow>
          (vlog c [''Finished processing file changes, set isReady to true''] st)
            \<lparr>isReady := True, received := received st + 1\<rparr>
      | Interrupt \<Rightarrow> st\<lparr>interrupted := True\<rparr>
      | _ \<Rightarrow> st)"

text \<open>The \<^verbatim>\<open>if\<close> after the \<^verbatim>\<open>select\<close>: the \<^verbatim>\<open>go\<close> statement starts one goroutine.\<close>

definition dispatch :: "state \<Rightarrow> state" where
  "dispatch st =
     (if isReady st \<and> pending st \<and> \<not> interrupted st
      then st\<lparr>isReady := False, pending := False, dispatched := dispatched st + 1\<rparr>
      else st)"

definition iteration :: "config \<Rightarrow> event \<Rightarrow> state \<Rightarrow> state" where
  "iteration c e st = dispatch (select c e st)"

text \<open>The handler \<^verbatim>\<open>reload\<close>.\<close>

definition upgrade :: "string option \<Rightarrow> state \<Rightarrow> state" where
  "upgrade err st =
     (case err of
        Some e \<Rightarrow>
          elog [''Could not updgrade HTTP request to websocket --'', e] (st\<lparr>ProgWebSocket := NoConn\<rparr>)
      | None \<Rightarrow> st\<lparr>ProgWebSocket := ConnOpen\<rparr>)"

definition peer_closed :: "config \<Rightarrow> string \<Rightarrow> state \<Rightarrow> state" where
  "peer_closed c e st = (vlog c [''Websocket connection closed --'', e] st)\<lparr>ProgWebSocket := ConnClosed\<rparr>"

text \<open>
  When a step can happen: a reception on \<^verbatim>\<open>ready\<close> needs a goroutine blocked in its send, a
  run of a goroutine needs one that was started and has not run, the handler needs the
  server. The other channels can deliver at any time.
\<close>

definition enabled :: "event \<Rightarrow> state \<Rightarrow> bool" where
  "enabled e st =
     (case e of
        Ready \<Rightarrow> received st < finished st
      | Build ev \<Rightarrow> finished st < dispatched st
      | Upgrade err \<Rightarrow> served st
      | PeerClosed err \<Rightarrow> ProgWebSocket st = ConnOpen
      | _ \<Rightarrow> True)"

definition step :: "config \<Rightarrow> event \<Rightarrow> state \<Rightarrow> state option" where
  "step c e st =
     (if \<not> enabled e st then None
      else Some (case e of
                   Build ev \<Rightarrow> build c ev st
                 | Upgrade err \<Rightarrow> upgrade err st
                 | PeerClosed err \<Rightarrow> peer_closed c err st
                 | _ \<Rightarrow> iteration c e st))"

text \<open>After the loop: \<^verbatim>\<open>fmt.Println()\<close>, the last log line, and \<^verbatim>\<open>main\<close> returns.\<close>

definition leave :: "config \<Rightarrow> state \<Rightarrow> state" where
  "leave c st = (vlog c [''Dev mode exited cleanly''] (st\<lparr>stdout := stdout st @ nl\<rparr>))\<lparr>exited := True\<rparr>"

text \<open>
  \<^verbatim>\<open>for !interrupted { ... }\<close> over the steps that happen, in their order. The result is
  \<open>None\<close> when a step of the list cannot happen where it stands. Once \<open>interrupted\<close> is set
  the loop is left and the program ends: the steps that remain do not happen. Nor do they
  after a panic has ended the program.
\<close>

fun run :: "config \<Rightarrow> event list \<Rightarrow> state \<Rightarrow> state option" where
  "run c [] st = (if exited st then Some st else if interrupted st then Some (leave c st) else Some st)"
| "run c (e # es) st =
     (if exited st then Some st
      else if interrupted st then Some (leave c st)
      else (case step c e st of None \<Rightarrow> None | Some st' \<Rightarrow> run c es st'))"

text \<open>
  The state when the loop is entered: the output file has just been created, \<open>h\<close> is the
  template text loaded at start (\<open>ProgHtmlTemplate\<close> without \<^verbatim>\<open>-template\<close>).
\<close>

definition init :: "string \<Rightarrow> state" where
  "init h =
     \<lparr> isReady = True, pending = False, interrupted = False, served = False, html = h,
       ProgWebSocket = NoConn, outfile = [], stdout = [], log = [], reloads = 0,
       dispatched = 0, finished = 0, received = 0, exited = False, panic = None \<rparr>"

subsection \<open>Notions used in the properties\<close>

text \<open>The builds in flight: goroutines started whose send on \<^verbatim>\<open>ready\<close> has not been received.\<close>

definition in_flight :: "state \<Rightarrow> nat" where
  "in_flight st = dispatched st - received st"

text \<open>The invariant of the loop and its goroutines.\<close>

definition sound :: "state \<Rightarrow> bool" where
  "sound st \<longleftrightarrow>
     received st \<le> finished st \<and> finished st \<le> dispatched st \<and>
     dispatched st \<le> received st + 1 \<and>
     (isReady st \<longleftrightarrow> dispatched st = received st) \<and>
     \<not> (isReady st \<and> pending st)"

text \<open>A change stimulus that asks for a rebuild.\<close>

definition is_change :: "config \<Rightarrow> event \<Rightarrow> bool" where
  "is_change c e =
     (case e of Updates us \<Rightarrow> list_ex (relevant c) us | TmplUpdate tf \<Rightarrow> True | _ \<Rightarrow> False)"

text \<open>
  A burst during a build: batches on the two watch channels, among them a change that
  asks for a rebuild, and possibly the run of the goroutine in flight.
\<close>

definition is_burst :: "config \<Rightarrow> event list \<Rightarrow> bool" where
  "is_burst c es \<longleftrightarrow>
     list_all (\<lambda>e. case e of Updates us \<Rightarrow> True | TmplUpdate tf \<Rightarrow> True | Build ev \<Rightarrow> True | _ \<Rightarrow> False) es \<and>
     list_ex (is_change c) es"

text \<open>An environment in which every call succeeds.\<close>

definition calm :: "fsnode \<Rightarrow> env" where
  "calm t =
     \<lparr> tree = t, truncate_err = None, seek_err = None, write_fault = None, sync_err = None,
       browser_err = None, ws_err = None \<rparr>"

text \<open>Concrete inputs for the examples.\<close>

definition example_config :: config where
  "example_config =
     \<lparr> inputdir = ''src'', OptOutfile = ''build/index.html'', OptVerbose = False,
       OptDevport = 8082, OptTemplate = ''index-template.html'', ignore = None,
       UintSize = 64, OpenBrowserCommand = ''xdg-open'', template = text_template \<rparr>"


definition example_tree :: fsnode where
  "example_tree =
     Dir 4096 (OpenOK True)
       [(''b.js'', File 14 (OpenOK True) ''console.log(1)''),
        (''a.css'', File 15 (OpenOK True) ''body{color:red}'')]"

text \<open>Concrete events for the examples.\<close>

definition shutdown_events :: "event list" where
  "shutdown_events = [TmplUpdate (Text ProgHtmlTemplate), Interrupt, Build (calm example_tree), Ready]"

definition css_changed :: Update where
  "css_changed = \<lparr>Name = ''a.css'', IsDir = False, WasRemoved = False\<rparr>"

definition burst_events :: "event list" where
  "burst_events = [Updates [css_changed], Updates [css_changed], Build (calm example_tree)]"

text \<open>
  When a build fails: truncating or rewinding the output file returns an error, or
  \<^verbatim>\<open>preprocess\<close> returns one.
\<close>

definition build_fails :: "config \<Rightarrow> env \<Rightarrow> state \<Rightarrow> bool" where
  "build_fails c ev st \<longleftrightarrow>
     fst (rewind c ev st) \<noteq> None \<or>
     (case snd (rendered c ev st) of Some (Error e) \<Rightarrow> True | _ \<Rightarrow> False)"

text \<open>The text \<^verbatim>\<open>ProgHotReloadCode\<close> with the port in the place of its dot.\<close>

definition reload_snippet :: "nat \<Rightarrow> string" where
  \<open>reload_snippet p =
     nl @ ''(function () {'' @
     nl @ ''    window.addEventListener("load", function(evt) {'' @
     nl @ ''        var socket = new WebSocket('' @ [CHR 0x27] @ ''ws://localhost:'' @ decimal p @
       ''/wpphotreload'' @ [CHR 0x27] @ '');'' @
     nl @ ''        socket.addEventListener('' @ [CHR 0x27] @ ''message'' @ [CHR 0x27] @ '', function(wsevt) {'' @
     nl @ ''            if (wsevt.data === '' @ [CHR 0x27] @ ''reload'' @ [CHR 0x27] @ '') {'' @
     nl @ ''                console.log("File change detected, reloading page.");'' @
     nl @ ''                window.location.reload(true);'' @
     nl @ ''            }'' @
     nl @ ''        });'' @
     nl @ ''    });'' @
     nl @ ''})()''\<close>

text \<open>A first build, and a rebuild after the template lost the end of an action.\<close>

definition first_build :: "event list" where
  "first_build = [TmplUpdate (Text ''<b>{{.CSS}}</b>''), Build (calm example_tree), Ready]"

definition broken_rebuild :: "event list" where
  "broken_rebuild = first_build @ [TmplUpdate (Text ''<b>{{.CSS''), Build (calm example_tree), Ready]"
























section \<open>Properties\<close>

subsection \<open>The change classifier\<close>

lemma on_update_frame:
  "isReady (on_update c u st) = isReady st"
  "interrupted (on_update c u st) = interrupted st"
  "dispatched (on_update c u st) = dispatched st"
  "finished (on_update c u st) = finished st"
  "received (on_update c u st) = received st"
  "exited (on_update c u st) = exited st"
  "html (on_update c u st) = html st"
  "outfile (on_update c u st) = outfile st"
  "stdout (on_update c u st) = stdout st"
  "ProgWebSocket (on_update c u st) = ProgWebSocket st"
  "served (on_update c u st) = served st"
  by (simp_all add: on_update_def vlog_def Let_def)

lemma on_updates_frame:
  "isReady (on_updates c us st) = isReady st"
  "interrupted (on_updates c us st) = interrupted st"
  "dispatched (on_updates c us st) = dispatched st"
  "finished (on_updates c us st) = finished st"
  "received (on_updates c us st) = received st"
  "exited (on_updates c us st) = exited st"
  "html (on_updates c us st) = html st"
  "outfile (on_updates c us st) = outfile st"
  "stdout (on_updates c us st) = stdout st"
  "ProgWebSocket (on_updates c us st) = ProgWebSocket st"
  "served (on_updates c us st) = served st"
  by (induction us arbitrary: st; simp add: on_update_frame)+

lemma pending_on_update:
  "pending (on_update c u st) \<longleftrightarrow> pending st \<or> relevant c u"
  by (auto simp: on_update_def relevant_def vlog_def Let_def)

lemma pending_on_updates:
  "pending (on_updates c us st) \<longleftrightarrow> pending st \<or> (\<exists>u \<in> set us. relevant c u)"
  by (induction us arbitrary: st) (auto simp: pending_on_update)

lemma pending_on_tmplUpdate:
  "pending (on_tmplUpdate c tf st)"
  by (simp add: on_tmplUpdate_def elog_def vlog_def Let_def split: option.splits)

text \<open>
  C5. An event of the input directory leaves \<open>pending\<close> set exactly when it was set
  before or the event is not a directory, not a removal, its name is not matched by the
  compiled exclusion pattern (when there is one) and its lowered extension is \<^verbatim>\<open>.js\<close> or
  \<^verbatim>\<open>.css\<close>; a batch sets it exactly when one of its events does; a batch on the template
  channel always sets it.
\<close>

theorem classifier_marks_pending:
  "(pending (on_update c u st) \<longleftrightarrow>
      pending st \<or>
      (\<not> IsDir u \<and> \<not> WasRemoved u \<and> \<not> (\<exists>re. ignore c = Some re \<and> re (Name u)) \<and>
       (ToLower (Ext (Name u)) = ''.js'' \<or> ToLower (Ext (Name u)) = ''.css''))) \<and>
   (pending (select c (Updates us) st) \<longleftrightarrow> pending st \<or> (\<exists>u \<in> set us. relevant c u)) \<and>
   pending (select c (TmplUpdate tf) st)"
proof -
  have "relevant c u \<longleftrightarrow>
      (\<not> IsDir u \<and> \<not> WasRemoved u \<and> \<not> (\<exists>re. ignore c = Some re \<and> re (Name u)) \<and>
       (ToLower (Ext (Name u)) = ''.js'' \<or> ToLower (Ext (Name u)) = ''.css''))"
    by (auto simp: relevant_def ignored_def split: option.splits)
  then show ?thesis
    by (simp add: pending_on_update pending_on_updates pending_on_tmplUpdate select_def)
qed

theorem classifier_marks_pending_witness:
  "pending (on_update example_config \<lparr>Name = ''App.JS'', IsDir = False, WasRemoved = False\<rparr> (init [])) \<and>
   \<not> pending (on_update example_config \<lparr>Name = ''notes.txt'', IsDir = False, WasRemoved = False\<rparr> (init [])) \<and>
   \<not> pending (on_update example_config \<lparr>Name = ''old.css'', IsDir = False, WasRemoved = True\<rparr> (init [])) \<and>
   \<not> pending (on_update (example_config\<lparr>ignore := Some (\<lambda>name. name = ''vendor.js'')\<rparr>)
       \<lparr>Name = ''vendor.js'', IsDir = False, WasRemoved = False\<rparr> (init []))"
  using classifier_marks_pending [of example_config "\<lparr>Name = ''App.JS'', IsDir = False, WasRemoved = False\<rparr>" "init []"]
    classifier_marks_pending [of example_config "\<lparr>Name = ''notes.txt'', IsDir = False, WasRemoved = False\<rparr>" "init []"]
    classifier_marks_pending [of example_config "\<lparr>Name = ''old.css'', IsDir = False, WasRemoved = True\<rparr>" "init []"]
    classifier_marks_pending [of "example_config\<lparr>ignore := Some (\<lambda>name. name = ''vendor.js'')\<rparr>"
      "\<lparr>Name = ''vendor.js'', IsDir = False, WasRemoved = False\<rparr>" "init []"]
  by (simp add: example_config_def init_def Ext_def ToLower_def lower_byte_def IsPathSeparator_def
      char_of_def bit_0)

subsection \<open>What the steps leave unchanged\<close>

lemma elog_frame [simp]:
  "isReady (elog a st) = isReady st"
  "pending (elog a st) = pending st"
  "interrupted (elog a st) = interrupted st"
  "dispatched (elog a st) = dispatched st"
  "received (elog a st) = received st"
  "finished (elog a st) = finished st"
  "exited (elog a st) = exited st"
  "html (elog a st) = html st"
  "ProgWebSocket (elog a st) = ProgWebSocket st"
  "served (elog a st) = served st"
  "outfile (elog a st) = outfile st"
  "stdout (elog a st) = stdout st"
  "reloads (elog a st) = reloads st"
  "log (elog a st) = log st @ [ERROR a]"
  by (simp_all add: elog_def)

lemma vlog_frame [simp]:
  "isReady (vlog c a st) = isReady st"
  "pending (vlog c a st) = pending st"
  "interrupted (vlog c a st) = interrupted st"
  "dispatched (vlog c a st) = dispatched st"
  "received (vlog c a st) = received st"
  "finished (vlog c a st) = finished st"
  "exited (vlog c a st) = exited st"
  "html (vlog c a st) = html st"
  "ProgWebSocket (vlog c a st) = ProgWebSocket st"
  "served (vlog c a st) = served st"
  "outfile (vlog c a st) = outfile st"
  "stdout (vlog c a st) = stdout st"
  "reloads (vlog c a st) = reloads st"
  by (simp_all add: vlog_def)

lemma emit_frame [simp]:
  "isReady (emit c bs st) = isReady st"
  "pending (emit c bs st) = pending st"
  "interrupted (emit c bs st) = interrupted st"
  "dispatched (emit c bs st) = dispatched st"
  "received (emit c bs st) = received st"
  "finished (emit c bs st) = finished st"
  "exited (emit c bs st) = exited st"
  "html (emit c bs st) = html st"
  "ProgWebSocket (emit c bs st) = ProgWebSocket st"
  "served (emit c bs st) = served st"
  "reloads (emit c bs st) = reloads st"
  "log (emit c bs st) = log st"
  by (simp_all add: emit_def)

lemma notify_frame [simp]:
  "isReady (notify c ev st) = isReady st"
  "pending (notify c ev st) = pending st"
  "interrupted (notify c ev st) = interrupted st"
  "dispatched (notify c ev st) = dispatched st"
  "received (notify c ev st) = received st"
  "finished (notify c ev st) = finished st"
  "exited (notify c ev st) = exited st"
  "html (notify c ev st) = html st"
  "ProgWebSocket (notify c ev st) = ProgWebSocket st"
  "outfile (notify c ev st) = outfile st"
  "stdout (notify c ev st) = stdout st"
  by (simp_all add: notify_def Let_def split: option.splits)

lemma rewind_frame [simp]:
  "isReady (snd (rewind c ev st)) = isReady st"
  "pending (snd (rewind c ev st)) = pending st"
  "interrupted (snd (rewind c ev st)) = interrupted st"
  "dispatched (snd (rewind c ev st)) = dispatched st"
  "received (snd (rewind c ev st)) = received st"
  "finished (snd (rewind c ev st)) = finished st"
  "exited (snd (rewind c ev st)) = exited st"
  "html (snd (rewind c ev st)) = html st"
  "ProgWebSocket (snd (rewind c ev st)) = ProgWebSocket st"
  "served (snd (rewind c ev st)) = served st"
  "stdout (snd (rewind c ev st)) = stdout st"
  "reloads (snd (rewind c ev st)) = reloads st"
  by (simp_all add: rewind_def split: option.splits)

lemma build_body_frame [simp]:
  "isReady (build_body c ev st) = isReady st"
  "pending (build_body c ev st) = pending st"
  "interrupted (build_body c ev st) = interrupted st"
  "dispatched (build_body c ev st) = dispatched st"
  "received (build_body c ev st) = received st"
  "finished (build_body c ev st) = finished st"
  "exited (build_body c ev st) = exited st"
  "html (build_body c ev st) = html st"
  "ProgWebSocket (build_body c ev st) = ProgWebSocket st"
  by (simp_all add: build_body_def Let_def split: option.splits failure.splits)

lemma deferred_sync_frame [simp]:
  "isReady (deferred_sync c ev st) = isReady st"
  "pending (deferred_sync c ev st) = pending st"
  "interrupted (deferred_sync c ev st) = interrupted st"
  "dispatched (deferred_sync c ev st) = dispatched st"
  "received (deferred_sync c ev st) = received st"
  "finished (deferred_sync c ev st) = finished st"
  "exited (deferred_sync c ev st) = exited st"
  "html (deferred_sync c ev st) = html st"
  "ProgWebSocket (deferred_sync c ev st) = ProgWebSocket st"
  "served (deferred_sync c ev st) = served st"
  "outfile (deferred_sync c ev st) = outfile st"
  "stdout (deferred_sync c ev st) = stdout st"
  "reloads (deferred_sync c ev st) = reloads st"
  by (simp_all add: deferred_sync_def split: option.splits)

lemma build_frame:
  "isReady (build c ev st) = isReady st"
  "pending (build c ev st) = pending st"
  "interrupted (build c ev st) = interrupted st"
  "dispatched (build c ev st) = dispatched st"
  "received (build c ev st) = received st"
  "finished (build c ev st) = (if build_panics c ev st then finished st else finished st + 1)"
  "exited (build c ev st) = (exited st \<or> build_panics c ev st)"
  "html (build c ev st) = html st"
  "ProgWebSocket (build c ev st) = ProgWebSocket st"
  by (simp_all add: build_def)

lemma open_length [simp]: "length css_open = 23" "length js_open = 31"
  by (simp_all add: css_open_def js_open_def)

lemma walk_returns_no_panic:
  "walk c (inputdir c) (tree ev) \<lparr>css = css_open, js = js_open\<rparr> = Inr b \<Longrightarrow> \<not> build_panics c ev st"
  by (simp add: build_panics_def rendered_def preprocess_def Let_def
      split: option.splits sum.splits failure.splits)

lemma example_tree_walk:
  "walk example_config ''src'' example_tree \<lparr>css = css_open, js = js_open\<rparr> =
     Inr \<lparr>css = css_open @ ''body{color:red}'', js = js_open @ ''console.log(1)''\<rparr>"
  by (simp add: example_tree_def example_config_def walkFn_def Grow_Copy_def Join_def MaxInt_def
      MaxUint_def MinUint_def Let_def Ext_def ToLower_def lower_byte_def IsPathSeparator_def
      char_of_def bit_0)

lemma example_config_fields:
  "inputdir example_config = ''src''"
  "OptOutfile example_config = ''build/index.html''"
  "OptVerbose example_config = False"
  "OptDevport example_config = 8082"
  "OptTemplate example_config = ''index-template.html''"
  "ignore example_config = None"
  "UintSize example_config = 64"
  "OpenBrowserCommand example_config = ''xdg-open''"
  "template example_config = text_template"
  by (simp_all add: example_config_def)

lemma calm_fields [simp]:
  "tree (calm t) = t"
  "truncate_err (calm t) = None"
  "seek_err (calm t) = None"
  "write_fault (calm t) = None"
  "sync_err (calm t) = None"
  "browser_err (calm t) = None"
  "ws_err (calm t) = None"
  by (simp_all add: calm_def)

lemma example_build_returns [simp]: "build_panics example_config (calm example_tree) st = False"
  using walk_returns_no_panic [of example_config "calm example_tree" _ st] example_tree_walk
  by (simp add: example_config_fields)

subsection \<open>The scheduler\<close>

lemma sound_init: "sound (init h)"
  by (simp add: sound_def init_def)

lemma select_frame:
  "dispatched (select c e st) = dispatched st"
  "finished (select c e st) = finished st"
  "exited (select c e st) = exited st"
  "outfile (select c e st) = outfile st"
  "stdout (select c e st) = stdout st"
  "ProgWebSocket (select c e st) = ProgWebSocket st"
  "served (select c e st) = served st"
  by (cases e; simp add: select_def on_updates_frame on_tmplUpdate_def elog_def vlog_def Let_def
      split: option.splits)+

lemma select_isReady:
  "isReady (select c e st) \<longleftrightarrow> isReady st \<or> e = Ready"
  by (cases e; simp add: select_def on_updates_frame on_tmplUpdate_def elog_def vlog_def Let_def
      split: option.splits)

lemma select_received:
  "received (select c e st) = received st + (if e = Ready then 1 else 0)"
  by (cases e; simp add: select_def on_updates_frame on_tmplUpdate_def elog_def vlog_def Let_def
      split: option.splits)

lemma select_interrupted:
  "interrupted (select c e st) \<longleftrightarrow> interrupted st \<or> e = Interrupt"
  by (cases e; simp add: select_def on_updates_frame on_tmplUpdate_def elog_def vlog_def Let_def
      split: option.splits)

lemma select_pending:
  "pending (select c e st) \<longleftrightarrow> pending st \<or> is_change c e"
  by (cases e; simp add: select_def pending_on_updates pending_on_tmplUpdate is_change_def
      list_ex_iff vlog_def)

lemma sound_step:
  assumes "sound st" and "\<not> interrupted st" and "step c e st = Some st'"
  shows "sound st'"
proof (cases e)
  case (Build ev)
  with assms show ?thesis
    by (auto simp: step_def enabled_def sound_def build_frame split: if_splits)
next
  case (Upgrade err)
  with assms show ?thesis
    by (auto simp: step_def enabled_def sound_def upgrade_def elog_def split: if_splits option.splits)
next
  case (PeerClosed err)
  with assms show ?thesis
    by (auto simp: step_def enabled_def sound_def peer_closed_def vlog_def split: if_splits)
next
  case Ready
  with assms show ?thesis
    by (auto simp: step_def enabled_def sound_def iteration_def dispatch_def select_frame
        select_isReady select_received select_interrupted select_pending is_change_def
        split: if_splits)
next
  case Interrupt
  with assms show ?thesis
    by (auto simp: step_def enabled_def sound_def iteration_def dispatch_def select_frame
        select_isReady select_received select_interrupted select_pending is_change_def
        split: if_splits)
next
  case (Updates us)
  with assms show ?thesis
    by (auto simp: step_def enabled_def sound_def iteration_def dispatch_def select_frame
        select_isReady select_received select_interrupted select_pending
        split: if_splits)
next
  case (TmplUpdate tf)
  with assms show ?thesis
    by (auto simp: step_def enabled_def sound_def iteration_def dispatch_def select_frame
        select_isReady select_received select_interrupted select_pending
        split: if_splits)
qed

lemma sound_leave: "sound st \<Longrightarrow> sound (leave c st)"
  by (simp add: sound_def leave_def vlog_def)

lemma leave_frame:
  "exited (leave c st)"
  "interrupted (leave c st) = interrupted st"
  "isReady (leave c st) = isReady st"
  "pending (leave c st) = pending st"
  "dispatched (leave c st) = dispatched st"
  "finished (leave c st) = finished st"
  "received (leave c st) = received st"
  "ProgWebSocket (leave c st) = ProgWebSocket st"
  "outfile (leave c st) = outfile st"
  "stdout (leave c st) = stdout st @ nl"
  "html (leave c st) = html st"
  by (simp_all add: leave_def vlog_def)

lemma sound_run:
  assumes "run c es st = Some st'" and "sound st"
  shows "sound st' \<and> (interrupted st' \<longrightarrow> exited st')"
  using assms
proof (induction es arbitrary: st)
  case Nil
  then show ?case
    by (auto simp: sound_leave leave_frame split: if_splits)
next
  case (Cons e es)
  show ?case
  proof (cases "exited st \<or> interrupted st")
    case True
    with Cons.prems show ?thesis
      by (auto simp: sound_leave leave_frame split: if_splits)
  next
    case False
    with Cons.prems obtain s1 where s1: "step c e st = Some s1" and r: "run c es s1 = Some st'"
      by (auto split: option.splits)
    from s1 False Cons.prems have "sound s1"
      by (auto simp: sound_step)
    with r show ?thesis
      using Cons.IH [of s1] by simp
  qed
qed

lemma dispatch_frame:
  "interrupted (dispatch st) = interrupted st"
  "exited (dispatch st) = exited st"
  "received (dispatch st) = received st"
  "finished (dispatch st) = finished st"
  "ProgWebSocket (dispatch st) = ProgWebSocket st"
  "html (dispatch st) = html st"
  "outfile (dispatch st) = outfile st"
  "stdout (dispatch st) = stdout st"
  by (simp_all add: dispatch_def)

lemma step_dispatched_le:
  assumes "step c e st = Some st'"
  shows "dispatched st' \<le> dispatched st + (if is_stimulus e then 1 else 0)"
proof (cases e)
  case Interrupt
  with assms show ?thesis
    by (auto simp: step_def iteration_def dispatch_def select_def split: if_splits)
qed (use assms in \<open>auto simp: step_def is_stimulus_def build_frame upgrade_def peer_closed_def
      elog_def vlog_def iteration_def dispatch_def select_frame split: if_splits option.splits\<close>)

lemma run_dispatched_le:
  "run c es st = Some st' \<Longrightarrow> dispatched st' \<le> dispatched st + length (filter is_stimulus es)"
proof (induction es arbitrary: st)
  case Nil
  then show ?case by (auto simp: leave_frame split: if_splits)
next
  case (Cons e es)
  show ?case
  proof (cases "exited st \<or> interrupted st")
    case True
    with Cons.prems show ?thesis by (auto simp: leave_frame split: if_splits)
  next
    case False
    with Cons.prems obtain s1 where s1: "step c e st = Some s1" and r: "run c es s1 = Some st'"
      by (auto split: option.splits)
    from Cons.IH [OF r] step_dispatched_le [OF s1] show ?thesis
      by (auto split: if_splits)
  qed
qed

lemma dispatch_after_select:
  assumes "sound st" and "\<not> interrupted st"
  shows "dispatched (iteration c e st) =
      dispatched st + (if isReady (select c e st) \<and> pending (select c e st) then 1 else 0)"
    and "isReady (select c e st) \<and> pending (select c e st) \<Longrightarrow>
      \<not> pending (iteration c e st) \<and> \<not> isReady (iteration c e st)"
    and "\<not> (isReady (select c e st) \<and> pending (select c e st)) \<Longrightarrow>
      iteration c e st = select c e st"
  using assms
  by (auto simp: iteration_def dispatch_def select_frame select_interrupted select_isReady
      select_pending sound_def is_change_def)

lemma step_keeps_building:
  assumes "\<not> isReady st" and "e \<noteq> Ready" and "step c e st = Some st'"
  shows "\<not> isReady st'"
  using assms
  by (cases e; auto simp: step_def build_frame upgrade_def peer_closed_def elog_def vlog_def
      iteration_def dispatch_def select_isReady split: if_splits option.splits)

lemma step_stimulus:
  "is_stimulus e \<or> e = Interrupt \<Longrightarrow> step c e st = Some st' \<Longrightarrow> st' = iteration c e st"
  by (cases e; auto simp: step_def is_stimulus_def split: if_splits)

lemma burst_run:
  assumes "run c bs st = Some st1" and "\<not> isReady st" and "\<not> interrupted st" and "\<not> exited st"
    and "list_all (\<lambda>e. case e of Updates us \<Rightarrow> True | TmplUpdate tf \<Rightarrow> True | Build ev \<Rightarrow> True | _ \<Rightarrow> False) bs"
  shows "dispatched st1 = dispatched st \<and> received st1 = received st \<and> \<not> isReady st1 \<and>
     \<not> interrupted st1 \<and>
     (if exited st1 then finished st1 < dispatched st1
      else (pending st1 \<longleftrightarrow> pending st \<or> list_ex (is_change c) bs))"
  using assms
proof (induction bs arbitrary: st)
  case Nil
  then show ?case by simp
next
  case (Cons e bs)
  from Cons.prems obtain s1 where s1: "step c e st = Some s1" and r: "run c bs s1 = Some st1"
    by (auto split: option.splits)
  from Cons.prems(5) have e: "(\<exists>us. e = Updates us) \<or> (\<exists>tf. e = TmplUpdate tf) \<or> (\<exists>ev. e = Build ev)"
    by (cases e) auto
  with s1 Cons.prems(2-4) have one: "dispatched s1 = dispatched st \<and> received s1 = received st \<and>
      \<not> isReady s1 \<and> \<not> interrupted s1 \<and>
      (if exited s1 then finished s1 < dispatched s1
       else (pending s1 \<longleftrightarrow> pending st \<or> is_change c e))"
    by (auto simp: step_def enabled_def build_frame iteration_def dispatch_def select_frame
        select_isReady select_received select_interrupted select_pending is_change_def
        split: if_splits)
  show ?case
  proof (cases "exited s1")
    case True
    with r have "st1 = s1" by (cases bs) simp_all
    with one True show ?thesis by simp
  next
    case False
    with one Cons.IH [OF r] Cons.prems(5) show ?thesis
      by auto
  qed
qed

text \<open>Rules that evaluate the loop on concrete events.\<close>

lemmas loop_eval = step_def enabled_def iteration_def select_def dispatch_def on_tmplUpdate_def
  loadHtml_def on_update_def ignored_def upgrade_def peer_closed_def leave_def init_def
  elog_def vlog_def Let_def

lemmas name_eval = Ext_def ToLower_def lower_byte_def IsPathSeparator_def char_of_def bit_0

text \<open>
  C2. In every state the program reaches from the start of the loop, at most one build
  is in flight, and \<open>isReady\<close> is false exactly while one is. An iteration of the loop
  starts a build exactly when \<open>isReady\<close> and \<open>pending\<close> both hold after its \<^verbatim>\<open>select\<close>; the
  iteration then leaves \<open>pending\<close> and \<open>isReady\<close> false, and \<open>isReady\<close> stays false through
  every step that is not the reception on \<^verbatim>\<open>ready\<close>.
\<close>

theorem one_build_in_flight:
  assumes "run c es (init h) = Some st"
  shows "in_flight st \<le> 1 \<and> (isReady st \<longleftrightarrow> in_flight st = 0) \<and>
     (\<forall>e st'. (is_stimulus e \<or> e = Interrupt) \<and> \<not> exited st \<and> step c e st = Some st' \<longrightarrow>
        dispatched st' =
          dispatched st + (if isReady (select c e st) \<and> pending (select c e st) then 1 else 0) \<and>
        (isReady (select c e st) \<and> pending (select c e st) \<longrightarrow> \<not> pending st' \<and> \<not> isReady st')) \<and>
     (\<forall>e st'. \<not> isReady st \<and> e \<noteq> Ready \<and> step c e st = Some st' \<longrightarrow> \<not> isReady st')"
proof -
  from sound_run [OF assms sound_init] have s: "sound st" and x: "interrupted st \<longrightarrow> exited st"
    by simp_all
  from s have "in_flight st \<le> 1 \<and> (isReady st \<longleftrightarrow> in_flight st = 0)"
    by (auto simp: sound_def in_flight_def)
  moreover have "dispatched st' =
          dispatched st + (if isReady (select c e st) \<and> pending (select c e st) then 1 else 0) \<and>
        (isReady (select c e st) \<and> pending (select c e st) \<longrightarrow> \<not> pending st' \<and> \<not> isReady st')"
    if "is_stimulus e \<or> e = Interrupt" and "\<not> exited st" and "step c e st = Some st'" for e st'
    using that s x step_stimulus [of e c st st'] dispatch_after_select [of st c e] by auto
  moreover have "\<not> isReady st'" if "\<not> isReady st" and "e \<noteq> Ready" and "step c e st = Some st'" for e st'
    using that by (rule step_keeps_building)
  ultimately show ?thesis by blast
qed

theorem one_build_in_flight_witness:
  "\<exists>st. run example_config
       [TmplUpdate (Text ProgHtmlTemplate), Updates [css_changed], Build (calm example_tree), Ready]
       (init ProgHtmlTemplate) = Some st \<and>
     in_flight st \<le> 1 \<and> (isReady st \<longleftrightarrow> in_flight st = 0) \<and>
     dispatched st = 2 \<and> received st = 1"
proof -
  define st where "st = the (run example_config
       [TmplUpdate (Text ProgHtmlTemplate), Updates [css_changed], Build (calm example_tree), Ready]
       (init ProgHtmlTemplate))"
  have r: "run example_config
       [TmplUpdate (Text ProgHtmlTemplate), Updates [css_changed], Build (calm example_tree), Ready]
       (init ProgHtmlTemplate) = Some st"
    unfolding st_def
    by (simp add: loop_eval name_eval build_frame example_config_fields css_changed_def)
  have d: "dispatched st = 2" "received st = 1"
    unfolding st_def
    by (simp_all add: loop_eval name_eval build_frame example_config_fields css_changed_def)
  note th = one_build_in_flight [OF r]
  show ?thesis
    apply (rule exI [of _ st])
    using r d th [THEN conjunct1] th [THEN conjunct2, THEN conjunct1] apply simp
    done
qed

text \<open>
  C3. From the start of the loop, the builds started never outnumber the stimuli
  received. A change that asks for a rebuild and arrives while no build is in flight
  starts exactly one build, in its own iteration. A burst of changes that arrives while
  a build is in flight starts none; the reception on \<^verbatim>\<open>ready\<close> that follows starts exactly
  one, and when that build completes without a further change no other is started.
\<close>

theorem builds_follow_changes:
  assumes "run c es (init h) = Some st"
  shows "dispatched st \<le> length (filter is_stimulus es) \<and>
     (\<forall>e st'. \<not> exited st \<and> isReady st \<and> is_change c e \<and> step c e st = Some st' \<longrightarrow>
        dispatched st' = dispatched st + 1 \<and> \<not> pending st') \<and>
     (\<forall>bs st1 st2. \<not> exited st \<and> \<not> isReady st \<and> is_burst c bs \<and>
          run c bs st = Some st1 \<and> step c Ready st1 = Some st2 \<longrightarrow>
        dispatched st1 = dispatched st \<and> dispatched st2 = dispatched st + 1 \<and> \<not> pending st2 \<and>
        (\<forall>ev st3 st4. step c (Build ev) st2 = Some st3 \<and> step c Ready st3 = Some st4 \<longrightarrow>
           dispatched st4 = dispatched st2 \<and> isReady st4))"
proof -
  from sound_run [OF assms sound_init] have s: "sound st" and x: "interrupted st \<longrightarrow> exited st"
    by simp_all
  have "dispatched st \<le> length (filter is_stimulus es)"
    using run_dispatched_le [OF assms] by (simp add: init_def)
  moreover have "dispatched st' = dispatched st + 1 \<and> \<not> pending st'"
    if "\<not> exited st" and "isReady st" and "is_change c e" and "step c e st = Some st'" for e st'
  proof -
    from that(3) have "is_stimulus e" by (cases e) (auto simp: is_change_def is_stimulus_def)
    with that(4) have "st' = iteration c e st" by (simp add: step_stimulus)
    with that s x show ?thesis
      using dispatch_after_select [of st c e] by (auto simp: select_isReady select_pending)
  qed
  moreover have "dispatched st1 = dispatched st \<and> dispatched st2 = dispatched st + 1 \<and> \<not> pending st2 \<and>
        (\<forall>ev st3 st4. step c (Build ev) st2 = Some st3 \<and> step c Ready st3 = Some st4 \<longrightarrow>
           dispatched st4 = dispatched st2 \<and> isReady st4)"
    if "\<not> exited st" and "\<not> isReady st" and "is_burst c bs" and "run c bs st = Some st1"
      and "step c Ready st1 = Some st2" for bs st1 st2
  proof -
    from that x have ni: "\<not> interrupted st" by simp
    from that(3) have shape: "list_all (\<lambda>e. case e of Updates us \<Rightarrow> True | TmplUpdate tf \<Rightarrow> True | Build ev \<Rightarrow> True | _ \<Rightarrow> False) bs"
      and change: "list_ex (is_change c) bs"
      by (simp_all add: is_burst_def)
    note br = burst_run [OF that(4) that(2) ni that(1) shape]
    from br have b0: "dispatched st1 = dispatched st" "\<not> isReady st1" "\<not> interrupted st1"
      by simp_all
    from br have e: "if exited st1 then finished st1 < dispatched st1
        else (pending st1 \<longleftrightarrow> pending st \<or> list_ex (is_change c) bs)"
      by (rule conjunct2 [THEN conjunct2, THEN conjunct2, THEN conjunct2])
    from sound_run [OF that(4) s] have s1: "sound st1" by simp
    have "\<not> exited st1"
    proof
      assume "exited st1"
      with e have "finished st1 < dispatched st1" by simp
      with s1 have "\<not> received st1 < finished st1" by (auto simp: sound_def)
      with that(5) show False by (simp add: step_def enabled_def)
    qed
    with e change have "pending st1" by simp
    with b0 have b: "dispatched st1 = dispatched st" "\<not> isReady st1" "\<not> interrupted st1" "pending st1"
      by simp_all
    from that(5) have st2: "st2 = iteration c Ready st1"
      by (simp add: step_stimulus is_stimulus_def)
    from b s1 have two: "dispatched st2 = dispatched st + 1" "\<not> pending st2" "\<not> isReady st2"
        "\<not> interrupted st2"
      unfolding st2 using dispatch_after_select [of st1 c Ready]
      by (auto simp: select_isReady select_pending iteration_def dispatch_frame select_interrupted)
    from sound_step [OF s1 b(3) that(5)] have s2: "sound st2" .
    have "dispatched st4 = dispatched st2 \<and> isReady st4"
      if "step c (Build ev) st2 = Some st3" and "step c Ready st3 = Some st4" for ev st3 st4
    proof -
      from that(1) have st3: "st3 = build c ev st2"
        by (auto simp: step_def split: if_splits)
      from sound_step [OF s2 two(4) that(1)] have s3: "sound st3" .
      from that(2) have st4: "st4 = iteration c Ready st3"
        by (simp add: step_stimulus is_stimulus_def)
      from two s3 show ?thesis
        unfolding st4 using dispatch_after_select [of st3 c Ready]
        by (auto simp: st3 build_frame select_isReady select_pending is_change_def)
    qed
    with b two show ?thesis by blast
  qed
  ultimately show ?thesis by blast
qed

theorem builds_follow_changes_witness:
  "\<exists>st st1 st2.
     isReady (init ProgHtmlTemplate) \<and> is_change example_config (TmplUpdate (Text ProgHtmlTemplate)) \<and>
     run example_config [TmplUpdate (Text ProgHtmlTemplate)] (init ProgHtmlTemplate) = Some st \<and>
     dispatched st = 1 \<and> \<not> exited st \<and> \<not> isReady st \<and>
     is_burst example_config burst_events \<and>
     run example_config burst_events st = Some st1 \<and> step example_config Ready st1 = Some st2 \<and>
     dispatched st1 = 1 \<and> dispatched st2 = 2 \<and> \<not> pending st2"
proof -
  define st where "st = the (run example_config [TmplUpdate (Text ProgHtmlTemplate)] (init ProgHtmlTemplate))"
  define st1 where "st1 = the (run example_config burst_events st)"
  define st2 where "st2 = the (step example_config Ready st1)"
  have r: "run example_config [TmplUpdate (Text ProgHtmlTemplate)] (init ProgHtmlTemplate) = Some st"
    unfolding st_def by (simp add: loop_eval example_config_fields)
  have s: "\<not> exited st" "\<not> isReady st" "dispatched st = 1"
    unfolding st_def by (simp_all add: loop_eval example_config_fields)
  have b: "is_burst example_config burst_events"
    by (simp add: is_burst_def burst_events_def is_change_def relevant_def ignored_def
        css_changed_def example_config_fields name_eval)
  have r1: "run example_config burst_events st = Some st1"
    unfolding st1_def st_def burst_events_def
    by (simp add: loop_eval name_eval build_frame example_config_fields css_changed_def)
  have r2: "step example_config Ready st1 = Some st2"
    unfolding st2_def st1_def st_def burst_events_def
    by (simp add: loop_eval name_eval build_frame example_config_fields css_changed_def)
  have i: "isReady (init ProgHtmlTemplate)" "is_change example_config (TmplUpdate (Text ProgHtmlTemplate))"
    by (simp_all add: init_def is_change_def)
  note th = builds_follow_changes [OF r]
  from th have "\<forall>bs st1 st2. \<not> exited st \<and> \<not> isReady st \<and> is_burst example_config bs \<and>
          run example_config bs st = Some st1 \<and> step example_config Ready st1 = Some st2 \<longrightarrow>
        dispatched st1 = dispatched st \<and> dispatched st2 = dispatched st + 1 \<and> \<not> pending st2 \<and>
        (\<forall>ev st3 st4. step example_config (Build ev) st2 = Some st3 \<and> step example_config Ready st3 = Some st4 \<longrightarrow>
           dispatched st4 = dispatched st2 \<and> isReady st4)"
    by (rule conjunct2 [THEN conjunct2])
  then have "\<not> exited st \<and> \<not> isReady st \<and> is_burst example_config burst_events \<and>
          run example_config burst_events st = Some st1 \<and> step example_config Ready st1 = Some st2 \<longrightarrow>
        dispatched st1 = dispatched st \<and> dispatched st2 = dispatched st + 1 \<and> \<not> pending st2 \<and>
        (\<forall>ev st3 st4. step example_config (Build ev) st2 = Some st3 \<and> step example_config Ready st3 = Some st4 \<longrightarrow>
           dispatched st4 = dispatched st2 \<and> isReady st4)"
    by blast
  with s b r1 r2 have c: "dispatched st1 = 1" "dispatched st2 = 2" "\<not> pending st2"
    by simp_all
  show ?thesis
    apply (rule exI [of _ st])
    apply (rule exI [of _ st1])
    apply (rule exI [of _ st2])
    using i r s b r1 r2 c apply simp
    done
qed

text \<open>
  C4, as the program has it. When the interrupt is received, in a state where a build may
  be in flight, the loop is left in that iteration: it does not wait for the reception on
  \<^verbatim>\<open>ready\<close>, no build is started, the web socket connection and the output file are left
  as they are, a newline is printed to standard output and the program ends, whatever
  steps were still to come.
\<close>

theorem interrupt_leaves_at_once:
  assumes "\<not> interrupted st" and "\<not> exited st"
  shows "run c (Interrupt # es) st = Some (leave c (st\<lparr>interrupted := True\<rparr>)) \<and>
     (\<forall>st'. run c (Interrupt # es) st = Some st' \<longrightarrow>
        exited st' \<and> dispatched st' = dispatched st \<and> received st' = received st \<and>
        isReady st' = isReady st \<and> in_flight st' = in_flight st \<and>
        ProgWebSocket st' = ProgWebSocket st \<and> outfile st' = outfile st \<and>
        stdout st' = stdout st @ nl)"
proof -
  have "step c Interrupt st = Some (st\<lparr>interrupted := True\<rparr>)"
    by (simp add: step_def enabled_def iteration_def select_def dispatch_def)
  with assms have "run c (Interrupt # es) st = Some (leave c (st\<lparr>interrupted := True\<rparr>))"
    by (cases es) simp_all
  then show ?thesis
    by (auto simp: leave_frame in_flight_def)
qed

theorem interrupt_leaves_at_once_witness:
  "\<exists>st st'. run example_config [TmplUpdate (Text ProgHtmlTemplate)] (init ProgHtmlTemplate) = Some st \<and>
     \<not> interrupted st \<and> \<not> exited st \<and> in_flight st = 1 \<and>
     run example_config [Interrupt, Build (calm example_tree), Ready] st = Some st' \<and>
     exited st' \<and> in_flight st' = 1 \<and> received st' = received st \<and>
     dispatched st' = dispatched st \<and> stdout st' = stdout st @ nl"
proof -
  define st where "st = the (run example_config [TmplUpdate (Text ProgHtmlTemplate)] (init ProgHtmlTemplate))"
  have r: "run example_config [TmplUpdate (Text ProgHtmlTemplate)] (init ProgHtmlTemplate) = Some st"
    unfolding st_def by (simp add: loop_eval example_config_fields)
  have s: "\<not> interrupted st" "\<not> exited st" "in_flight st = 1"
    unfolding st_def by (simp_all add: loop_eval example_config_fields in_flight_def)
  define st' where "st' = leave example_config (st\<lparr>interrupted := True\<rparr>)"
  note th = interrupt_leaves_at_once [OF s(1,2), of example_config "[Build (calm example_tree), Ready]",
      folded st'_def]
  from th have a: "run example_config [Interrupt, Build (calm example_tree), Ready] st = Some st'"
    by (rule conjunct1)
  from th a have b: "exited st' \<and> dispatched st' = dispatched st \<and> received st' = received st \<and>
        isReady st' = isReady st \<and> in_flight st' = in_flight st \<and>
        ProgWebSocket st' = ProgWebSocket st \<and> outfile st' = outfile st \<and>
        stdout st' = stdout st @ nl"
    by blast
  show ?thesis
    apply (rule exI [of _ st])
    apply (rule exI [of _ st'])
    using r s a b apply simp
    done
qed

text \<open>
  C4 as stated does not hold: the interrupt arrives while the first build is in flight,
  the goroutine's run and its send on \<^verbatim>\<open>ready\<close> are still to come, and the program ends
  with the build in flight and nothing received on \<^verbatim>\<open>ready\<close>.
\<close>

theorem interrupt_does_not_wait_counterexample:
  "run example_config shutdown_events (init ProgHtmlTemplate) \<noteq> None \<and>
   exited (the (run example_config shutdown_events (init ProgHtmlTemplate))) \<and>
   \<not> isReady (the (run example_config shutdown_events (init ProgHtmlTemplate))) \<and>
   dispatched (the (run example_config shutdown_events (init ProgHtmlTemplate))) = 1 \<and>
   finished (the (run example_config shutdown_events (init ProgHtmlTemplate))) = 0 \<and>
   received (the (run example_config shutdown_events (init ProgHtmlTemplate))) = 0"
  by (simp add: shutdown_events_def loop_eval example_config_fields)

subsection \<open>The build goroutine\<close>

lemma rewind_cases:
  "fst (rewind c ev st) =
     (if OptOutfile c = [] then None
      else if truncate_err ev \<noteq> None then truncate_err ev else seek_err ev)"
  "outfile (snd (rewind c ev st)) =
     (if OptOutfile c = [] \<or> truncate_err ev \<noteq> None then outfile st else [])"
  "log (snd (rewind c ev st)) =
     (case fst (rewind c ev st) of
        None \<Rightarrow> log st
      | Some e \<Rightarrow>
          log st @ [ERROR [if truncate_err ev \<noteq> None then ''Failed to truncate outfile,''
                           else ''Failed to seek to beginning of outfile,'', OptOutfile c, ''-- '', e]])"
  by (auto simp: rewind_def split: option.splits)

lemma build_body_unfold:
  "build_body c ev st =
     (case fst (rewind c ev st) of
        Some e \<Rightarrow> snd (rewind c ev st)
      | None \<Rightarrow>
          (let st1 = emit c (fst (rendered c ev st)) (snd (rewind c ev st)) in
           case snd (rendered c ev st) of
             Some (Panic v) \<Rightarrow> st1\<lparr>panic := Some v\<rparr>
           | Some (Error e) \<Rightarrow> elog [''Failed to pre-process'', inputdir c, '' --'', e] st1
           | None \<Rightarrow> if port_of c > 0 then notify c ev st1 else st1\<lparr>stdout := stdout st1 @ nl\<rparr>))"
  by (cases "fst (rewind c ev st)") (simp_all add: build_body_def rendered_def port_of_def Let_def)

lemma build_fails_returns: "build_fails c ev st \<Longrightarrow> \<not> build_panics c ev st"
  by (auto simp: build_fails_def build_panics_def split: option.splits failure.splits)

lemma outfile_emit:
  "outfile (emit c bs st) = (if OptOutfile c \<noteq> [] then outfile st @ bs else outfile st)"
  "stdout (emit c bs st) = (if OptOutfile c \<noteq> [] then stdout st else stdout st @ bs)"
  by (simp_all add: emit_def)

lemma outfile_build:
  "outfile (build c ev st) =
     (if OptOutfile c = [] \<or> truncate_err ev \<noteq> None then outfile st
      else if seek_err ev \<noteq> None then []
      else fst (rendered c ev st))"
  by (cases "fst (rewind c ev st)"; cases "snd (rendered c ev st)")
    (auto simp: build_def build_body_unfold rewind_cases outfile_emit Let_def
      split: if_splits failure.splits)

lemma stdout_build:
  "stdout (build c ev st) =
     stdout st @
       (if fst (rewind c ev st) \<noteq> None then []
        else (if OptOutfile c = [] then fst (rendered c ev st) else []) @
             (if snd (rendered c ev st) = None \<and> port_of c = 0 then nl else []))"
  by (cases "fst (rewind c ev st)"; cases "snd (rendered c ev st)")
    (auto simp: build_def build_body_unfold rewind_cases outfile_emit Let_def
      split: if_splits failure.splits)

lemma log_build_body_fails:
  assumes "build_fails c ev st"
  shows "\<exists>args. log (build_body c ev st) = log st @ [ERROR args]"
proof (cases "fst (rewind c ev st)")
  case (Some e)
  then show ?thesis
    by (simp add: build_body_unfold rewind_cases)
next
  case None
  with assms obtain e where "snd (rendered c ev st) = Some (Error e)"
    by (auto simp: build_fails_def split: option.splits failure.splits)
  with None show ?thesis
    by (simp add: build_body_unfold rewind_cases Let_def)
qed

lemma rendered_build [simp]: "rendered c ev' (build c ev st) = rendered c ev' st"
  by (simp add: rendered_def build_frame)

lemma rewind_build [simp]: "fst (rewind c ev' (build c ev st)) = fst (rewind c ev' st)"
  by (simp add: rewind_cases)

text \<open>Rules that evaluate the template collaborator, the walk and a build.\<close>

lemmas template_eval = text_template_def parse_nodes.simps marked_def action_def trim_def
  TrimLeft_def TrimRight_def is_space_def is_blank_def
  is_ident_def is_letter_def is_digit_def text_node_def eval_node_def

lemma constants_length: "length ProgHotReloadCode = 399 \<and> length ProgHtmlTemplate = 123"
  by (simp add: ProgHotReloadCode_def ProgHtmlTemplate_def nl_def)

lemma text_template_snippet:
  "parse_error text_template ProgHotReloadCode = None \<and>
   execute text_template ProgHotReloadCode (Port port) = (reload_snippet port, None)"
proof -
  have "parse_nodes ProgHotReloadCode =
      Inr [TextNode (take 119 ProgHotReloadCode), DotNode, TextNode (drop 124 ProgHotReloadCode)]"
    by (simp add: ProgHotReloadCode_def nl_def template_eval)
  then show ?thesis
    by (simp add: text_template_def eval_node_def reload_snippet_def ProgHotReloadCode_def nl_def)
qed

lemma hot_reload_text_template:
  assumes "template c = text_template"
  shows "hot_reload c p b = Inr (b\<lparr>js := js b @ reload_snippet p\<rparr>)"
  using text_template_snippet [of p] by (simp add: hot_reload_def assms)

lemmas build_eval = build_def build_body_def deferred_sync_def rewind_def emit_def notify_def
  preprocess_def write_out_def

lemmas walk_eval = walkFn_def Grow_Copy_def Join_def MaxInt_def MaxUint_def MinUint_def

lemma preprocess_parse_error:
  "parse_error (template c) h = Some e \<Longrightarrow> preprocess c t d h f p = ([], Some (Error e))"
  by (simp add: preprocess_def)

lemma preprocess_walk_error:
  "walk c d t \<lparr>css = css_open, js = js_open\<rparr> = Inl e \<Longrightarrow> fst (preprocess c t d h f p) = []"
  by (simp add: preprocess_def split: option.splits)

lemma log_build_fails:
  assumes "build_fails c ev st"
  shows "\<exists>args more. log (build c ev st) = log st @ [ERROR args] @ more"
proof -
  from log_build_body_fails [OF assms] obtain args
    where "log (build_body c ev st) = log st @ [ERROR args]" by blast
  with build_fails_returns [OF assms] show ?thesis
    by (auto simp: build_def deferred_sync_def elog_def split: option.splits)
qed

lemma parse_broken: "parse_error text_template ''<b>{{.CSS'' = Some ''unclosed action''"
  by (simp add: template_eval)

lemma first_build_outfile:
  "outfile (the (run example_config first_build (init ''<b>{{.CSS}}</b>''))) =
     ''<b>'' @ css_open @ ''body{color:red}</style></b>''"
  by (simp add: first_build_def loop_eval build_frame outfile_build rendered_def port_of_def
      preprocess_def write_out_def hot_reload_text_template walk_eval name_eval template_eval
      example_config_fields example_tree_walk)

text \<open>
  C1, as the program has it. When a build fails (truncating or rewinding the output
  file fails, or \<^verbatim>\<open>preprocess\<close> returns an error), an error line is logged, the goroutine
  reaches its send on \<^verbatim>\<open>ready\<close>, and the loop's reception sets \<open>isReady\<close>. The bytes of the
  output file are the previous ones only when no output file is set or the truncation
  itself failed; after a truncation the file holds what \<^verbatim>\<open>preprocess\<close> wrote before it
  failed, which is nothing when the template does not parse or the walk fails.
\<close>

theorem failed_build_reports_and_completes:
  assumes "build_fails c ev st"
  shows "(\<exists>args more. log (build c ev st) = log st @ [ERROR args] @ more) \<and>
     finished (build c ev st) = finished st + 1 \<and>
     (received st \<le> finished st \<longrightarrow>
        enabled Ready (build c ev st) \<and> isReady (select c Ready (build c ev st))) \<and>
     outfile (build c ev st) =
       (if OptOutfile c = [] \<or> truncate_err ev \<noteq> None then outfile st
        else if seek_err ev \<noteq> None then []
        else fst (rendered c ev st)) \<and>
     (parse_error (template c) (html st) \<noteq> None \<or>
      (\<exists>e. walk c (inputdir c) (tree ev) \<lparr>css = css_open, js = js_open\<rparr> = Inl e) \<longrightarrow>
        fst (rendered c ev st) = [])"
proof -
  have "fst (rendered c ev st) = []"
    if "parse_error (template c) (html st) \<noteq> None \<or>
      (\<exists>e. walk c (inputdir c) (tree ev) \<lparr>css = css_open, js = js_open\<rparr> = Inl e)"
    using that by (auto simp: rendered_def preprocess_parse_error preprocess_walk_error)
  moreover have "enabled Ready (build c ev st) \<and> isReady (select c Ready (build c ev st))"
    if "received st \<le> finished st"
    using that build_fails_returns [OF assms] by (simp add: enabled_def build_frame select_isReady)
  ultimately show ?thesis
    using log_build_fails [OF assms] build_fails_returns [OF assms]
    by (simp add: build_frame outfile_build)
qed

theorem failed_build_reports_and_completes_witness:
  "\<exists>st. run example_config (first_build @ [TmplUpdate (Text ''<b>{{.CSS'')]) (init ''<b>{{.CSS}}</b>'') = Some st \<and>
     build_fails example_config (calm example_tree) st \<and>
     received st \<le> finished st \<and>
     (\<exists>args more. log (build example_config (calm example_tree) st) = log st @ [ERROR args] @ more) \<and>
     finished (build example_config (calm example_tree) st) = finished st + 1 \<and>
     enabled Ready (build example_config (calm example_tree) st) \<and>
     isReady (select example_config Ready (build example_config (calm example_tree) st)) \<and>
     outfile (build example_config (calm example_tree) st) = []"
proof -
  define st where "st = the (run example_config (first_build @ [TmplUpdate (Text ''<b>{{.CSS'')])
      (init ''<b>{{.CSS}}</b>''))"
  have r: "run example_config (first_build @ [TmplUpdate (Text ''<b>{{.CSS'')]) (init ''<b>{{.CSS}}</b>'') = Some st"
    unfolding st_def
    by (simp add: first_build_def loop_eval build_frame example_config_fields)
  have h: "html st = ''<b>{{.CSS''" and n: "received st \<le> finished st"
    unfolding st_def
    by (simp_all add: first_build_def loop_eval build_frame example_config_fields)
  have p: "parse_error (template example_config) (html st) = Some ''unclosed action''"
    by (simp add: h example_config_fields parse_broken)
  then have f: "build_fails example_config (calm example_tree) st"
    by (simp add: build_fails_def rendered_def preprocess_parse_error)
  note th = failed_build_reports_and_completes [OF f]
  have o: "outfile (build example_config (calm example_tree) st) = fst (rendered example_config (calm example_tree) st)"
    using th [THEN conjunct2, THEN conjunct2, THEN conjunct2, THEN conjunct1]
    by (simp add: example_config_fields)
  have e: "fst (rendered example_config (calm example_tree) st) = []"
    using th [THEN conjunct2, THEN conjunct2, THEN conjunct2, THEN conjunct2] p by simp
  show ?thesis
    apply (rule exI [of _ st])
    using r f n th [THEN conjunct1] th [THEN conjunct2, THEN conjunct1]
      th [THEN conjunct2, THEN conjunct2, THEN conjunct1] o e
    apply simp
    done
qed

text \<open>
  C1 as stated does not hold: a first build writes the output file; the template then
  loses the end of an action and the rebuild fails in \<^verbatim>\<open>Parse\<close>, after the output file
  has been truncated. The file is left empty.
\<close>

theorem failed_build_truncates_counterexample:
  "run example_config broken_rebuild (init ''<b>{{.CSS}}</b>'') \<noteq> None \<and>
   outfile (the (run example_config first_build (init ''<b>{{.CSS}}</b>''))) =
     ''<b>'' @ css_open @ ''body{color:red}</style></b>'' \<and>
   outfile (the (run example_config broken_rebuild (init ''<b>{{.CSS}}</b>''))) = []"
proof -
  have "run example_config broken_rebuild (init ''<b>{{.CSS}}</b>'') \<noteq> None"
    by (simp add: broken_rebuild_def first_build_def loop_eval build_frame example_config_fields)
  moreover have "outfile (the (run example_config broken_rebuild (init ''<b>{{.CSS}}</b>''))) = []"
    by (simp add: broken_rebuild_def first_build_def loop_eval build_frame outfile_build rendered_def
        port_of_def preprocess_parse_error parse_broken example_config_fields)
  ultimately show ?thesis
    using first_build_outfile by simp
qed

text \<open>
  C7, as the program has it. When \<^verbatim>\<open>loadHtml\<close> fails after a batch on \<^verbatim>\<open>tmplUpdate\<close>, the loop
  goes on: the error is logged, nothing is written, the loop is not left. The assignment
  \<^verbatim>\<open>html, err = loadHtml(OptTemplate)\<close> stores the empty string that \<^verbatim>\<open>loadHtml\<close> returns with
  its error, so the builds that follow run \<^verbatim>\<open>preprocess\<close> on the empty template.
\<close>

theorem failed_reload_empties_template:
  assumes "OptTemplate c \<noteq> []" and "snd (loadHtml (OptTemplate c) tf) = Some err"
    and "\<not> interrupted st"
  shows "\<exists>st'. step c (TmplUpdate tf) st = Some st' \<and>
     html st' = [] \<and>
     log st' =
       log st @
       (if OptVerbose c then [VERBOSE [''Detected change of HTML template:'', OptTemplate c]] else []) @
       [ERROR [err]] \<and>
     \<not> interrupted st' \<and> exited st' = exited st \<and>
     outfile st' = outfile st \<and> stdout st' = stdout st \<and>
     (\<forall>ev. rendered c ev st' = preprocess c (tree ev) (inputdir c) [] (write_fault ev) (port_of c))"
proof -
  from assms(2) have l: "fst (loadHtml (OptTemplate c) tf) = []"
    by (cases tf) (simp_all add: loadHtml_def)
  define s1 where "s1 = on_tmplUpdate c tf st"
  have s1: "html s1 = []" "interrupted s1 = interrupted st" "exited s1 = exited st"
    "outfile s1 = outfile st" "stdout s1 = stdout st"
    "log s1 = log st @
       (if OptVerbose c then [VERBOSE [''Detected change of HTML template:'', OptTemplate c]] else []) @
       [ERROR [err]]"
    using assms(1,2) l by (simp_all add: s1_def on_tmplUpdate_def Let_def vlog_def)
  have d: "html (dispatch s1) = html s1" "log (dispatch s1) = log s1"
    by (simp_all add: dispatch_def)
  have "step c (TmplUpdate tf) st = Some (dispatch s1)"
    by (simp add: step_def enabled_def iteration_def select_def s1_def)
  with s1 d assms(3) show ?thesis
    by (simp add: dispatch_frame rendered_def)
qed

theorem failed_reload_empties_template_witness:
  "\<exists>st'. step example_config (TmplUpdate Absent) (init ProgHtmlTemplate) = Some st' \<and>
     html st' = [] \<and>
     log st' = [ERROR [''index-template.html does not exist'']] \<and>
     \<not> interrupted st' \<and> \<not> exited st'"
proof -
  have a: "OptTemplate example_config \<noteq> []"
    and b: "snd (loadHtml (OptTemplate example_config) Absent) = Some ''index-template.html does not exist''"
    and c: "\<not> interrupted (init ProgHtmlTemplate)"
    by (simp_all add: example_config_fields loadHtml_def init_def)
  from failed_reload_empties_template [OF a b c] obtain st'
    where "step example_config (TmplUpdate Absent) (init ProgHtmlTemplate) = Some st'"
      and "html st' = []"
      and "log st' =
        log (init ProgHtmlTemplate) @
        (if OptVerbose example_config
         then [VERBOSE [''Detected change of HTML template:'', OptTemplate example_config]] else []) @
        [ERROR [''index-template.html does not exist'']]"
      and "\<not> interrupted st'" and "exited st' = exited (init ProgHtmlTemplate)"
    by blast
  then show ?thesis
    by (intro exI [of _ st']) (simp add: example_config_fields init_def)
qed

text \<open>
  C7 as stated does not hold: after a first build from the template \<^verbatim>\<open><b>{{.CSS}}</b>\<close>, the
  template file is found absent. The template text is then empty, not the text loaded
  before, and the next build writes an empty output file.
\<close>

theorem failed_reload_retains_nothing_counterexample:
  "html (the (run example_config first_build (init ''<b>{{.CSS}}</b>''))) = ''<b>{{.CSS}}</b>'' \<and>
   outfile (the (run example_config first_build (init ''<b>{{.CSS}}</b>''))) =
     ''<b>'' @ css_open @ ''body{color:red}</style></b>'' \<and>
   html (the (run example_config (first_build @ [TmplUpdate Absent]) (init ''<b>{{.CSS}}</b>''))) = [] \<and>
   outfile (the (run example_config (first_build @ [TmplUpdate Absent, Build (calm example_tree)])
     (init ''<b>{{.CSS}}</b>''))) = []"
proof -
  have "html (the (run example_config first_build (init ''<b>{{.CSS}}</b>''))) = ''<b>{{.CSS}}</b>''"
    by (simp add: first_build_def loop_eval build_frame example_config_fields)
  moreover have "html (the (run example_config (first_build @ [TmplUpdate Absent]) (init ''<b>{{.CSS}}</b>''))) = []"
    by (simp add: first_build_def loop_eval build_frame example_config_fields)
  moreover have "outfile (the (run example_config (first_build @ [TmplUpdate Absent, Build (calm example_tree)])
     (init ''<b>{{.CSS}}</b>''))) = []"
    by (simp add: first_build_def loop_eval build_frame outfile_build rendered_def port_of_def
      preprocess_def write_out_def hot_reload_text_template walk_eval name_eval template_eval
      example_config_fields example_tree_walk)
  ultimately show ?thesis
    using first_build_outfile by simp
qed

text \<open>
  C8. Two builds in a row, on the same tree and with the same outcomes of truncating,
  rewinding and writing: the second run of \<^verbatim>\<open>preprocess\<close> writes the bytes the first run
  wrote, the output file holds the same bytes after the second build as after the first,
  and standard output receives the same bytes twice.
\<close>

theorem rebuild_is_idempotent:
  assumes "tree ev2 = tree ev1" and "truncate_err ev2 = truncate_err ev1"
    and "seek_err ev2 = seek_err ev1" and "write_fault ev2 = write_fault ev1"
  shows "rendered c ev2 (build c ev1 st) = rendered c ev1 st \<and>
     outfile (build c ev2 (build c ev1 st)) = outfile (build c ev1 st) \<and>
     (\<exists>bytes. stdout (build c ev1 st) = stdout st @ bytes \<and>
        stdout (build c ev2 (build c ev1 st)) = stdout st @ bytes @ bytes)"
proof -
  have r: "rendered c ev2 st = rendered c ev1 st"
    using assms by (simp add: rendered_def)
  have w: "fst (rewind c ev2 st) = fst (rewind c ev1 st)"
    using assms by (simp add: rewind_cases)
  have "rendered c ev2 (build c ev1 st) = rendered c ev1 st"
    using r by simp
  moreover have "outfile (build c ev2 (build c ev1 st)) = outfile (build c ev1 st)"
    using assms r by (simp add: outfile_build)
  moreover have "\<exists>bytes. stdout (build c ev1 st) = stdout st @ bytes \<and>
        stdout (build c ev2 (build c ev1 st)) = stdout st @ bytes @ bytes"
    using r w by (simp add: stdout_build)
  ultimately show ?thesis by blast
qed

theorem rebuild_is_idempotent_witness:
  "outfile (build example_config (calm example_tree) (init ''<b>{{.CSS}}</b>'')) =
     ''<b>'' @ css_open @ ''body{color:red}</style></b>'' \<and>
   outfile (build example_config (calm example_tree)
     (build example_config (calm example_tree) (init ''<b>{{.CSS}}</b>''))) =
     ''<b>'' @ css_open @ ''body{color:red}</style></b>''"
proof -
  have "outfile (build example_config (calm example_tree) (init ''<b>{{.CSS}}</b>'')) =
     ''<b>'' @ css_open @ ''body{color:red}</style></b>''"
    by (simp add: outfile_build rendered_def port_of_def init_def
      preprocess_def write_out_def hot_reload_text_template walk_eval name_eval template_eval
      example_config_fields example_tree_walk)
  with rebuild_is_idempotent [of "calm example_tree" "calm example_tree" example_config "init ''<b>{{.CSS}}</b>''"]
  show ?thesis by simp
qed

subsection \<open>The walk\<close>
























subsection \<open>The slots of the template\<close>





















end
